theory Spec2Isabelle
  imports Main "HOL-Library.AList" "HOL-Library.Monad_Syntax" "HOL-Library.Sublist"
begin

section \<open>Values, documents and the store\<close>

text \<open>
  The job portal of \<^verbatim>\<open>backend/server.py\<close> keeps three MongoDB collections (users, jobs,
  applications) whose documents are Python dictionaries. A document is modelled as an
  association list from field names to values; the values are the ones the pydantic models
  of the file produce: \<^verbatim>\<open>None\<close>, \<^verbatim>\<open>str\<close>, \<^verbatim>\<open>List[str]\<close> and \<^verbatim>\<open>datetime\<close>.
  Strings are \<open>char list\<close>; the \<^verbatim>\<open>_id\<close> field that MongoDB adds to every stored document
  is read by no handler and is left out.
\<close>

datatype datetime = Datetime int

datatype pyval = PNone | PStr string | PList "string list" | PDatetime datetime

type_synonym doc = "(string \<times> pyval) list"

text \<open>
  The exceptions a handler can end with. \<open>HTTPException\<close> is raised by the handlers
  themselves; the others are raised by pydantic (\<open>ValidationError\<close>), by a dictionary
  subscript (\<open>KeyError\<close>), by the database driver (\<open>ValueError\<close> of a negative skip,
  \<open>OperationFailure\<close> of a pattern the regular-expression engine rejects) and are not
  caught: FastAPI answers them with status 500.
\<close>

datatype error =
    HTTPException nat string
  | ValidationError
  | KeyError string
  | ValueError
  | OperationFailure

fun status_code :: "error \<Rightarrow> nat" where
  "status_code (HTTPException c _) = c"
| "status_code _ = 500"

text \<open>
  Library functions the handlers call and whose code is not part of the repository are
  parameters of the model: \<^verbatim>\<open>datetime.isoformat\<close>, \<^verbatim>\<open>datetime.fromisoformat\<close>, pydantic's
  parsing of a string into a \<^verbatim>\<open>datetime\<close> field, and the database's \<^verbatim>\<open>$regex\<close> operator
  with option \<^verbatim>\<open>i\<close> (\<open>regex_i p\<close> is \<open>None\<close> when the pattern \<open>p\<close> is rejected, and
  otherwise the predicate "the pattern finds a match in this string").
\<close>

record libs =
  isoformat :: "datetime \<Rightarrow> string"
  fromisoformat :: "string \<Rightarrow> datetime option"
  parse_datetime :: "string \<Rightarrow> datetime option"
  regex_i :: "string \<Rightarrow> (string \<Rightarrow> bool) option"

record store =
  users :: "doc list"
  jobs :: "doc list"
  applications :: "doc list"

definition empty_store :: store where
  "empty_store = \<lparr>users = [], jobs = [], applications = []\<rparr>"

section \<open>Serialization helpers\<close>

text \<open>
  \<^verbatim>\<open>prepare_for_mongo\<close>: every top-level \<^verbatim>\<open>datetime\<close> value is replaced by its ISO text.
\<close>

definition prepare_for_mongo :: "libs \<Rightarrow> doc \<Rightarrow> doc" where
  "prepare_for_mongo L data =
     map (\<lambda>(key, v). (key, case v of PDatetime t \<Rightarrow> PStr (isoformat L t) | _ \<Rightarrow> v)) data"

text \<open>\<^verbatim>\<open>value.replace('Z', '+00:00')\<close>\<close>

definition replace_Z :: "string \<Rightarrow> string" where
  "replace_Z s = concat (map (\<lambda>c. if c = CHR ''Z'' then ''+00:00'' else [c]) s)"

text \<open>
  \<^verbatim>\<open>parse_from_mongo\<close>: every top-level string value that contains the letter \<^verbatim>\<open>T\<close> is
  given to \<^verbatim>\<open>datetime.fromisoformat\<close>; when that succeeds the value becomes the
  \<^verbatim>\<open>datetime\<close>, when it raises the value is kept (\<^verbatim>\<open>except: pass\<close>).
\<close>

definition parse_value :: "libs \<Rightarrow> pyval \<Rightarrow> pyval" where
  "parse_value L v =
     (case v of
        PStr s \<Rightarrow>
          if CHR ''T'' \<in> set s
          then (case fromisoformat L (replace_Z s) of Some t \<Rightarrow> PDatetime t | None \<Rightarrow> v)
          else v
      | _ \<Rightarrow> v)"

definition parse_from_mongo :: "libs \<Rightarrow> doc \<Rightarrow> doc" where
  "parse_from_mongo L item = map (\<lambda>(key, v). (key, parse_value L v)) item"

section \<open>The document store\<close>

text \<open>
  A collection is the list of its documents in insertion order. The queries the handlers
  build use three operators: equality with a value, \<^verbatim>\<open>$regex\<close> with option \<^verbatim>\<open>i\<close>, and
  \<^verbatim>\<open>$in\<close>; a query dictionary is the conjunction of its entries, and the entry \<^verbatim>\<open>$or\<close>
  holds a list of one-field alternatives. As in MongoDB, an array field matches when one
  of its elements does, and a missing field matches only \<^verbatim>\<open>null\<close>.
\<close>

datatype cond = Equals pyval | Regex_i string | In_list "pyval list"

datatype crit = Has string cond | Or_of "(string \<times> cond) list"

type_synonym query = "crit list"

fun eq_match :: "pyval option \<Rightarrow> pyval \<Rightarrow> bool" where
  "eq_match None q = (q = PNone)"
| "eq_match (Some (PList xs)) (PStr s) = (s \<in> set xs)"
| "eq_match (Some v) q = (v = q)"

fun regex_match :: "(string \<Rightarrow> bool) \<Rightarrow> pyval option \<Rightarrow> bool" where
  "regex_match m (Some (PStr s)) = m s"
| "regex_match m (Some (PList xs)) = list_ex m xs"
| "regex_match m _ = False"

fun cond_matches :: "libs \<Rightarrow> pyval option \<Rightarrow> cond \<Rightarrow> bool" where
  "cond_matches L v (Equals q) = eq_match v q"
| "cond_matches L v (In_list qs) = list_ex (eq_match v) qs"
| "cond_matches L v (Regex_i p) =
     (case regex_i L p of None \<Rightarrow> False | Some m \<Rightarrow> regex_match m v)"

fun crit_matches :: "libs \<Rightarrow> doc \<Rightarrow> crit \<Rightarrow> bool" where
  "crit_matches L d (Has k c) = cond_matches L (map_of d k) c"
| "crit_matches L d (Or_of alts) = list_ex (\<lambda>(k, c). cond_matches L (map_of d k) c) alts"

definition matches :: "libs \<Rightarrow> query \<Rightarrow> doc \<Rightarrow> bool" where
  "matches L q d = list_all (crit_matches L d) q"

text \<open>The patterns of a query that the regular-expression engine rejects make it fail.\<close>

fun cond_valid :: "libs \<Rightarrow> cond \<Rightarrow> bool" where
  "cond_valid L (Regex_i p) = (regex_i L p \<noteq> None)"
| "cond_valid L _ = True"

fun crit_valid :: "libs \<Rightarrow> crit \<Rightarrow> bool" where
  "crit_valid L (Has k c) = cond_valid L c"
| "crit_valid L (Or_of alts) = list_all (\<lambda>(k, c). cond_valid L c) alts"

definition query_valid :: "libs \<Rightarrow> query \<Rightarrow> bool" where
  "query_valid L q = list_all (crit_valid L) q"

definition find_docs :: "libs \<Rightarrow> doc list \<Rightarrow> query \<Rightarrow> doc list" where
  "find_docs L coll q = filter (matches L q) coll"

definition find_one :: "libs \<Rightarrow> doc list \<Rightarrow> query \<Rightarrow> doc option" where
  "find_one L coll q = (case find_docs L coll q of [] \<Rightarrow> None | d # _ \<Rightarrow> Some d)"

definition count_documents :: "libs \<Rightarrow> doc list \<Rightarrow> query \<Rightarrow> nat" where
  "count_documents L coll q = length (find_docs L coll q)"

definition insert_one :: "doc list \<Rightarrow> doc \<Rightarrow> doc list" where
  "insert_one coll d = coll @ [d]"

text \<open>\<^verbatim>\<open>update_one(q, {"$set": fields})\<close>: the first matching document gets the fields.\<close>

definition set_fields :: "doc \<Rightarrow> doc \<Rightarrow> doc" where
  "set_fields upd d = fold (\<lambda>(k, v). AList.update k v) upd d"

fun update_one :: "libs \<Rightarrow> doc list \<Rightarrow> query \<Rightarrow> doc \<Rightarrow> doc list" where
  "update_one L [] q upd = []"
| "update_one L (d # ds) q upd =
     (if matches L q d then set_fields upd d # ds else d # update_one L ds q upd)"

text \<open>
  \<^verbatim>\<open>.sort(key, -1)\<close>: descending by the field. The timestamps are stored as ISO text, so
  the stored documents are compared as strings, byte by byte; a field that holds no string
  is ranked by its kind (missing and \<^verbatim>\<open>null\<close> lowest). The database does not fix the order
  of documents with equal keys; here they keep their insertion order.
\<close>

fun str_le :: "string \<Rightarrow> string \<Rightarrow> bool" where
  "str_le [] _ = True"
| "str_le (a # as) [] = False"
| "str_le (a # as) (b # bs) =
     ((of_char a :: nat) < of_char b \<or> (a = b \<and> str_le as bs))"

fun sort_rank :: "pyval option \<Rightarrow> nat \<times> string" where
  "sort_rank (Some (PStr s)) = (1, s)"
| "sort_rank (Some (PList xs)) = (2, [])"
| "sort_rank (Some (PDatetime t)) = (3, [])"
| "sort_rank _ = (0, [])"

definition key_le :: "string \<Rightarrow> doc \<Rightarrow> doc \<Rightarrow> bool" where
  "key_le k a b =
     (let (ra, sa) = sort_rank (map_of a k); (rb, sb) = sort_rank (map_of b k)
      in ra < rb \<or> (ra = rb \<and> str_le sa sb))"

fun insert_desc :: "string \<Rightarrow> doc \<Rightarrow> doc list \<Rightarrow> doc list" where
  "insert_desc k d [] = [d]"
| "insert_desc k d (e # es) =
     (if key_le k e d then d # e # es else e # insert_desc k d es)"

definition sort_desc :: "string \<Rightarrow> doc list \<Rightarrow> doc list" where
  "sort_desc k ds = foldr (insert_desc k) ds []"

text \<open>
  \<^verbatim>\<open>.limit(n)\<close>: zero means no limit, and a negative number limits to its absolute value.
\<close>

definition limit_docs :: "int \<Rightarrow> doc list \<Rightarrow> doc list" where
  "limit_docs n ds = (if n = 0 then ds else take (nat \<bar>n\<bar>) ds)"

section \<open>The pydantic models\<close>

text \<open>
  The request bodies are validated by FastAPI before a handler runs, so a handler receives
  them typed. Field names carry the initials of their model, since a field name is global.
\<close>

record UserCreate =
  uc_email :: string
  uc_password :: string
  uc_name :: string
  uc_user_type :: string

record UserLogin =
  ul_email :: string
  ul_password :: string

record JobCreate =
  jc_title :: string
  jc_company :: string
  jc_location :: string
  jc_job_type :: string
  jc_salary_range :: "string option"
  jc_description :: string
  jc_requirements :: "string list"
  jc_benefits :: "string list"

record ApplicationCreate =
  ac_job_id :: string
  ac_cover_letter :: "string option"

record UserResponse =
  ur_id :: string
  ur_email :: string
  ur_name :: string
  ur_user_type :: string
  ur_profile_image :: "string option"
  ur_title :: "string option"
  ur_location :: "string option"
  ur_bio :: "string option"
  ur_company :: "string option"
  ur_skills :: "string list"
  ur_experience :: "string option"
  ur_education :: "string option"
  ur_created_at :: datetime

record JobResponse =
  jr_id :: string
  jr_title :: string
  jr_company :: string
  jr_location :: string
  jr_job_type :: string
  jr_salary_range :: "string option"
  jr_description :: string
  jr_requirements :: "string list"
  jr_benefits :: "string list"
  jr_employer_id :: string
  jr_posted_at :: datetime
  jr_status :: string

record ApplicationResponse =
  ar_id :: string
  ar_job_id :: string
  ar_applicant_id :: string
  ar_cover_letter :: "string option"
  ar_status :: string
  ar_applied_at :: datetime
  ar_job_title :: "string option"
  ar_company :: "string option"
  ar_applicant_name :: "string option"

fun opt_val :: "string option \<Rightarrow> pyval" where
  "opt_val None = PNone"
| "opt_val (Some s) = PStr s"

text \<open>
  \<^verbatim>\<open>User(**user_data.dict()).dict()\<close>: the four submitted fields, the defaults of the other
  fields, and the two default factories: \<open>new_id\<close> stands for \<^verbatim>\<open>str(uuid.uuid4())\<close> and
  \<open>now\<close> for \<^verbatim>\<open>datetime.now(timezone.utc)\<close>.
\<close>

definition User_dict :: "UserCreate \<Rightarrow> string \<Rightarrow> datetime \<Rightarrow> doc" where
  "User_dict user_data new_id now =
     [(''id'', PStr new_id),
      (''email'', PStr (uc_email user_data)),
      (''password'', PStr (uc_password user_data)),
      (''name'', PStr (uc_name user_data)),
      (''user_type'', PStr (uc_user_type user_data)),
      (''profile_image'', PNone),
      (''title'', PNone),
      (''location'', PNone),
      (''bio'', PNone),
      (''company'', PNone),
      (''skills'', PList []),
      (''experience'', PNone),
      (''education'', PNone),
      (''resume'', PNone),
      (''created_at'', PDatetime now)]"

text \<open>
  \<^verbatim>\<open>job_dict = job_data.dict(); job_dict["employer_id"] = employer_id; Job(**job_dict).dict()\<close>
\<close>

definition Job_dict :: "JobCreate \<Rightarrow> string \<Rightarrow> string \<Rightarrow> datetime \<Rightarrow> doc" where
  "Job_dict job_data employer_id new_id now =
     [(''id'', PStr new_id),
      (''title'', PStr (jc_title job_data)),
      (''company'', PStr (jc_company job_data)),
      (''location'', PStr (jc_location job_data)),
      (''job_type'', PStr (jc_job_type job_data)),
      (''salary_range'', opt_val (jc_salary_range job_data)),
      (''description'', PStr (jc_description job_data)),
      (''requirements'', PList (jc_requirements job_data)),
      (''benefits'', PList (jc_benefits job_data)),
      (''employer_id'', PStr employer_id),
      (''posted_at'', PDatetime now),
      (''expires_at'', PNone),
      (''status'', PStr ''active'')]"

text \<open>
  \<^verbatim>\<open>app_dict = application_data.dict(); app_dict["applicant_id"] = applicant_id;
  Application(**app_dict).dict()\<close>
\<close>

definition Application_dict :: "ApplicationCreate \<Rightarrow> string \<Rightarrow> string \<Rightarrow> datetime \<Rightarrow> doc" where
  "Application_dict application_data applicant_id new_id now =
     [(''id'', PStr new_id),
      (''job_id'', PStr (ac_job_id application_data)),
      (''applicant_id'', PStr applicant_id),
      (''cover_letter'', opt_val (ac_cover_letter application_data)),
      (''status'', PStr ''pending''),
      (''applied_at'', PDatetime now),
      (''notes'', PNone)]"

text \<open>
  Validation of a dictionary against a response model, field by field: a \<^verbatim>\<open>str\<close> field
  needs a string; an \<^verbatim>\<open>Optional[str] = None\<close> field takes a string, \<^verbatim>\<open>None\<close> or a missing
  key; a \<^verbatim>\<open>List[str] = []\<close> field takes a list or a missing key; a \<^verbatim>\<open>datetime\<close> field takes
  a \<^verbatim>\<open>datetime\<close> or a string that pydantic can parse as one. Keys that are no field of the
  model are ignored. \<open>None\<close> is pydantic's \<^verbatim>\<open>ValidationError\<close>.
\<close>

definition str_field :: "doc \<Rightarrow> string \<Rightarrow> string option" where
  "str_field d k = (case map_of d k of Some (PStr s) \<Rightarrow> Some s | _ \<Rightarrow> None)"

definition opt_str_field :: "doc \<Rightarrow> string \<Rightarrow> string option option" where
  "opt_str_field d k =
     (case map_of d k of
        None \<Rightarrow> Some None
      | Some PNone \<Rightarrow> Some None
      | Some (PStr s) \<Rightarrow> Some (Some s)
      | _ \<Rightarrow> None)"

definition str_list_field :: "doc \<Rightarrow> string \<Rightarrow> string list option" where
  "str_list_field d k =
     (case map_of d k of None \<Rightarrow> Some [] | Some (PList xs) \<Rightarrow> Some xs | _ \<Rightarrow> None)"

definition datetime_field :: "libs \<Rightarrow> doc \<Rightarrow> string \<Rightarrow> datetime option" where
  "datetime_field L d k =
     (case map_of d k of
        Some (PDatetime t) \<Rightarrow> Some t
      | Some (PStr s) \<Rightarrow> parse_datetime L s
      | _ \<Rightarrow> None)"

definition UserResponse_validate :: "libs \<Rightarrow> doc \<Rightarrow> UserResponse option" where
  "UserResponse_validate L d =
     do {
       v_id \<leftarrow> str_field d ''id'';
       v_email \<leftarrow> str_field d ''email'';
       v_name \<leftarrow> str_field d ''name'';
       v_user_type \<leftarrow> str_field d ''user_type'';
       v_profile_image \<leftarrow> opt_str_field d ''profile_image'';
       v_title \<leftarrow> opt_str_field d ''title'';
       v_location \<leftarrow> opt_str_field d ''location'';
       v_bio \<leftarrow> opt_str_field d ''bio'';
       v_company \<leftarrow> opt_str_field d ''company'';
       v_skills \<leftarrow> str_list_field d ''skills'';
       v_experience \<leftarrow> opt_str_field d ''experience'';
       v_education \<leftarrow> opt_str_field d ''education'';
       v_created_at \<leftarrow> datetime_field L d ''created_at'';
       Some \<lparr>ur_id = v_id, ur_email = v_email, ur_name = v_name,
         ur_user_type = v_user_type, ur_profile_image = v_profile_image,
         ur_title = v_title, ur_location = v_location, ur_bio = v_bio,
         ur_company = v_company, ur_skills = v_skills, ur_experience = v_experience,
         ur_education = v_education, ur_created_at = v_created_at\<rparr>
     }"

definition JobResponse_validate :: "libs \<Rightarrow> doc \<Rightarrow> JobResponse option" where
  "JobResponse_validate L d =
     do {
       v_id \<leftarrow> str_field d ''id'';
       v_title \<leftarrow> str_field d ''title'';
       v_company \<leftarrow> str_field d ''company'';
       v_location \<leftarrow> str_field d ''location'';
       v_job_type \<leftarrow> str_field d ''job_type'';
       v_salary_range \<leftarrow> opt_str_field d ''salary_range'';
       v_description \<leftarrow> str_field d ''description'';
       v_requirements \<leftarrow> str_list_field d ''requirements'';
       v_benefits \<leftarrow> str_list_field d ''benefits'';
       v_employer_id \<leftarrow> str_field d ''employer_id'';
       v_posted_at \<leftarrow> datetime_field L d ''posted_at'';
       v_status \<leftarrow> str_field d ''status'';
       Some \<lparr>jr_id = v_id, jr_title = v_title, jr_company = v_company,
         jr_location = v_location, jr_job_type = v_job_type,
         jr_salary_range = v_salary_range, jr_description = v_description,
         jr_requirements = v_requirements, jr_benefits = v_benefits,
         jr_employer_id = v_employer_id, jr_posted_at = v_posted_at,
         jr_status = v_status\<rparr>
     }"

definition ApplicationResponse_validate :: "libs \<Rightarrow> doc \<Rightarrow> ApplicationResponse option" where
  "ApplicationResponse_validate L d =
     do {
       v_id \<leftarrow> str_field d ''id'';
       v_job_id \<leftarrow> str_field d ''job_id'';
       v_applicant_id \<leftarrow> str_field d ''applicant_id'';
       v_cover_letter \<leftarrow> opt_str_field d ''cover_letter'';
       v_status \<leftarrow> str_field d ''status'';
       v_applied_at \<leftarrow> datetime_field L d ''applied_at'';
       v_job_title \<leftarrow> opt_str_field d ''job_title'';
       v_company \<leftarrow> opt_str_field d ''company'';
       v_applicant_name \<leftarrow> opt_str_field d ''applicant_name'';
       Some \<lparr>ar_id = v_id, ar_job_id = v_job_id, ar_applicant_id = v_applicant_id,
         ar_cover_letter = v_cover_letter, ar_status = v_status,
         ar_applied_at = v_applied_at, ar_job_title = v_job_title,
         ar_company = v_company, ar_applicant_name = v_applicant_name\<rparr>
     }"

section \<open>The handlers\<close>

text \<open>
  A handler that writes returns its answer and the new store; a handler that only reads
  returns its answer. An answer is \<open>Inl\<close> of the exception or \<open>Inr\<close> of the response.
\<close>

definition validated :: "'a option \<Rightarrow> error + 'a" where
  "validated r = (case r of None \<Rightarrow> Inl ValidationError | Some x \<Rightarrow> Inr x)"

text \<open>\<^verbatim>\<open>d[k]\<close>\<close>

definition subscript :: "doc \<Rightarrow> string \<Rightarrow> error + pyval" where
  "subscript d k = (case map_of d k of None \<Rightarrow> Inl (KeyError k) | Some v \<Rightarrow> Inr v)"

text \<open>A loop or comprehension whose body can raise: the first exception ends it.\<close>

fun collect :: "(error + 'a) list \<Rightarrow> error + 'a list" where
  "collect [] = Inr []"
| "collect (x # xs) =
     (case x of
        Inl e \<Rightarrow> Inl e
      | Inr a \<Rightarrow> (case collect xs of Inl e \<Rightarrow> Inl e | Inr as \<Rightarrow> Inr (a # as)))"

subsection \<open>Authentication and users\<close>

definition register_user ::
  "libs \<Rightarrow> store \<Rightarrow> UserCreate \<Rightarrow> string \<Rightarrow> datetime \<Rightarrow> (error + UserResponse) \<times> store" where
  "register_user L db user_data new_id now =
     (case find_one L (users db) [Has ''email'' (Equals (PStr (uc_email user_data)))] of
        Some existing_user \<Rightarrow> (Inl (HTTPException 400 ''Email already registered''), db)
      | None \<Rightarrow>
          let user_obj = User_dict user_data new_id now;
              user_mongo = prepare_for_mongo L user_obj;
              db' = db\<lparr>users := insert_one (users db) user_mongo\<rparr>
          in (validated (UserResponse_validate L user_obj), db'))"

definition login_user :: "libs \<Rightarrow> store \<Rightarrow> UserLogin \<Rightarrow> error + UserResponse" where
  "login_user L db login_data =
     (case find_one L (users db)
             [Has ''email'' (Equals (PStr (ul_email login_data))),
              Has ''password'' (Equals (PStr (ul_password login_data)))] of
        None \<Rightarrow> Inl (HTTPException 401 ''Invalid credentials'')
      | Some user \<Rightarrow> validated (UserResponse_validate L (parse_from_mongo L user)))"

definition get_user :: "libs \<Rightarrow> store \<Rightarrow> string \<Rightarrow> error + UserResponse" where
  "get_user L db user_id =
     (case find_one L (users db) [Has ''id'' (Equals (PStr user_id))] of
        None \<Rightarrow> Inl (HTTPException 404 ''User not found'')
      | Some user \<Rightarrow> validated (UserResponse_validate L (parse_from_mongo L user)))"

text \<open>
  \<^verbatim>\<open>profile_data: dict\<close> is any JSON object; its keys are taken as top-level field names
  and its values are restricted to the values of this model.
\<close>

definition update_user_profile ::
  "libs \<Rightarrow> store \<Rightarrow> string \<Rightarrow> doc \<Rightarrow> (error + string) \<times> store" where
  "update_user_profile L db user_id profile_data =
     (case find_one L (users db) [Has ''id'' (Equals (PStr user_id))] of
        None \<Rightarrow> (Inl (HTTPException 404 ''User not found''), db)
      | Some user \<Rightarrow>
          (Inr ''Profile updated successfully'',
           db\<lparr>users :=
             update_one L (users db) [Has ''id'' (Equals (PStr user_id))] profile_data\<rparr>))"

subsection \<open>Jobs\<close>

definition create_job ::
  "libs \<Rightarrow> store \<Rightarrow> JobCreate \<Rightarrow> string \<Rightarrow> string \<Rightarrow> datetime
     \<Rightarrow> (error + JobResponse) \<times> store" where
  "create_job L db job_data employer_id new_id now =
     (let job_obj = Job_dict job_data employer_id new_id now;
          job_mongo = prepare_for_mongo L job_obj;
          db' = db\<lparr>jobs := insert_one (jobs db) job_mongo\<rparr>
      in (validated (JobResponse_validate L job_obj), db'))"

text \<open>
  The query of \<^verbatim>\<open>get_jobs\<close>. \<^verbatim>\<open>if search:\<close> is false for \<^verbatim>\<open>None\<close> and for the empty string,
  and so are the tests of the two other filters.
\<close>

definition get_jobs_query ::
  "string option \<Rightarrow> string option \<Rightarrow> string option \<Rightarrow> query" where
  "get_jobs_query search location job_type =
     [Has ''status'' (Equals (PStr ''active''))]
     @ (case search of
          None \<Rightarrow> []
        | Some s \<Rightarrow>
            if s \<noteq> []
            then [Or_of [(''title'', Regex_i s), (''company'', Regex_i s),
                         (''description'', Regex_i s)]]
            else [])
     @ (case location of
          None \<Rightarrow> []
        | Some l \<Rightarrow> if l \<noteq> [] then [Has ''location'' (Regex_i l)] else [])
     @ (case job_type of
          None \<Rightarrow> []
        | Some t \<Rightarrow> if t \<noteq> [] then [Has ''job_type'' (Equals (PStr t))] else [])"

text \<open>
  \<^verbatim>\<open>db.jobs.find(query).skip(skip).limit(limit).sort("posted_at", -1)\<close>: the driver refuses
  a negative skip when the cursor is built; the database sorts, then skips, then limits.
\<close>

definition get_jobs ::
  "libs \<Rightarrow> store \<Rightarrow> int \<Rightarrow> int \<Rightarrow> string option \<Rightarrow> string option \<Rightarrow> string option
     \<Rightarrow> error + JobResponse list" where
  "get_jobs L db skip limit search location job_type =
     (let query = get_jobs_query search location job_type in
      if skip < 0 then Inl ValueError
      else if \<not> query_valid L query then Inl OperationFailure
      else
        let found = limit_docs limit
                      (drop (nat skip) (sort_desc ''posted_at'' (find_docs L (jobs db) query)));
            parsed = map (parse_from_mongo L) found
        in collect (map (\<lambda>job. validated (JobResponse_validate L job)) parsed))"

definition get_job :: "libs \<Rightarrow> store \<Rightarrow> string \<Rightarrow> error + JobResponse" where
  "get_job L db job_id =
     (case find_one L (jobs db) [Has ''id'' (Equals (PStr job_id))] of
        None \<Rightarrow> Inl (HTTPException 404 ''Job not found'')
      | Some job \<Rightarrow> validated (JobResponse_validate L (parse_from_mongo L job)))"

definition get_employer_jobs :: "libs \<Rightarrow> store \<Rightarrow> string \<Rightarrow> error + JobResponse list" where
  "get_employer_jobs L db employer_id =
     (let found = sort_desc ''posted_at''
                    (find_docs L (jobs db) [Has ''employer_id'' (Equals (PStr employer_id))]);
          parsed = map (parse_from_mongo L) found
      in collect (map (\<lambda>job. validated (JobResponse_validate L job)) parsed))"

subsection \<open>Applications\<close>

text \<open>
  \<^verbatim>\<open>if job: data["job_title"] = job["title"]; data["company"] = job["company"]\<close> and
  \<^verbatim>\<open>if applicant: data["applicant_name"] = applicant["name"]\<close>
\<close>

definition enrich_job :: "doc option \<Rightarrow> doc \<Rightarrow> error + doc" where
  "enrich_job job data =
     (case job of
        None \<Rightarrow> Inr data
      | Some j \<Rightarrow>
          (case subscript j ''title'' of
             Inl e \<Rightarrow> Inl e
           | Inr t \<Rightarrow>
               (case subscript j ''company'' of
                  Inl e \<Rightarrow> Inl e
                | Inr c \<Rightarrow>
                    Inr (AList.update ''company'' c (AList.update ''job_title'' t data)))))"

definition enrich_applicant :: "doc option \<Rightarrow> doc \<Rightarrow> error + doc" where
  "enrich_applicant applicant data =
     (case applicant of
        None \<Rightarrow> Inr data
      | Some a \<Rightarrow>
          (case subscript a ''name'' of
             Inl e \<Rightarrow> Inl e
           | Inr n \<Rightarrow> Inr (AList.update ''applicant_name'' n data)))"

definition apply_for_job ::
  "libs \<Rightarrow> store \<Rightarrow> ApplicationCreate \<Rightarrow> string \<Rightarrow> string \<Rightarrow> datetime
     \<Rightarrow> (error + ApplicationResponse) \<times> store" where
  "apply_for_job L db application_data applicant_id new_id now =
     (case find_one L (applications db)
             [Has ''job_id'' (Equals (PStr (ac_job_id application_data))),
              Has ''applicant_id'' (Equals (PStr applicant_id))] of
        Some existing_application \<Rightarrow>
          (Inl (HTTPException 400 ''Already applied for this job''), db)
      | None \<Rightarrow>
          let app_obj = Application_dict application_data applicant_id new_id now;
              app_mongo = prepare_for_mongo L app_obj;
              db' = db\<lparr>applications := insert_one (applications db) app_mongo\<rparr>;
              job = find_one L (jobs db')
                      [Has ''id'' (Equals (PStr (ac_job_id application_data)))];
              applicant = find_one L (users db') [Has ''id'' (Equals (PStr applicant_id))]
          in ((case enrich_job job app_obj of
                 Inl e \<Rightarrow> Inl e
               | Inr data1 \<Rightarrow>
                   (case enrich_applicant applicant data1 of
                      Inl e \<Rightarrow> Inl e
                    | Inr response_data \<Rightarrow>
                        validated (ApplicationResponse_validate L response_data))),
              db'))"

definition get_user_applications ::
  "libs \<Rightarrow> store \<Rightarrow> string \<Rightarrow> error + ApplicationResponse list" where
  "get_user_applications L db user_id =
     (let found = sort_desc ''applied_at''
                    (find_docs L (applications db)
                       [Has ''applicant_id'' (Equals (PStr user_id))]);
          parsed = map (parse_from_mongo L) found
      in collect
           (map (\<lambda>app.
                   case subscript app ''job_id'' of
                     Inl e \<Rightarrow> Inl e
                   | Inr jid \<Rightarrow>
                       (case enrich_job (find_one L (jobs db) [Has ''id'' (Equals jid)]) app of
                          Inl e \<Rightarrow> Inl e
                        | Inr app_data \<Rightarrow>
                            validated (ApplicationResponse_validate L app_data)))
              parsed))"

definition get_job_applications ::
  "libs \<Rightarrow> store \<Rightarrow> string \<Rightarrow> error + ApplicationResponse list" where
  "get_job_applications L db job_id =
     (let found = sort_desc ''applied_at''
                    (find_docs L (applications db) [Has ''job_id'' (Equals (PStr job_id))]);
          parsed = map (parse_from_mongo L) found
      in collect
           (map (\<lambda>app.
                   case subscript app ''applicant_id'' of
                     Inl e \<Rightarrow> Inl e
                   | Inr aid \<Rightarrow>
                       (let applicant = find_one L (users db) [Has ''id'' (Equals aid)];
                            job = find_one L (jobs db) [Has ''id'' (Equals (PStr job_id))]
                        in case enrich_applicant applicant app of
                             Inl e \<Rightarrow> Inl e
                           | Inr data1 \<Rightarrow>
                               (case enrich_job job data1 of
                                  Inl e \<Rightarrow> Inl e
                                | Inr app_data \<Rightarrow>
                                    validated (ApplicationResponse_validate L app_data))))
              parsed))"

subsection \<open>Dashboard statistics\<close>

datatype stats =
    SeekerStats (total_applications: nat) (pending: nat) (shortlisted: nat)
  | EmployerStats (total_jobs: nat) (active_jobs: nat) (total_applications: nat)

definition get_dashboard_stats :: "libs \<Rightarrow> store \<Rightarrow> string \<Rightarrow> string \<Rightarrow> error + stats" where
  "get_dashboard_stats L db user_id user_type =
     (if user_type = ''job_seeker'' then
        let applications_count =
              count_documents L (applications db)
                [Has ''applicant_id'' (Equals (PStr user_id))];
            pending_count =
              count_documents L (applications db)
                [Has ''applicant_id'' (Equals (PStr user_id)),
                 Has ''status'' (Equals (PStr ''pending''))];
            shortlisted_count =
              count_documents L (applications db)
                [Has ''applicant_id'' (Equals (PStr user_id)),
                 Has ''status'' (Equals (PStr ''shortlisted''))]
        in Inr (SeekerStats applications_count pending_count shortlisted_count)
      else
        let jobs_count =
              count_documents L (jobs db) [Has ''employer_id'' (Equals (PStr user_id))];
            active_jobs_count =
              count_documents L (jobs db)
                [Has ''employer_id'' (Equals (PStr user_id)),
                 Has ''status'' (Equals (PStr ''active''))];
            employer_jobs =
              find_docs L (jobs db) [Has ''employer_id'' (Equals (PStr user_id))]
        in case collect (map (\<lambda>job. subscript job ''id'') employer_jobs) of
             Inl e \<Rightarrow> Inl e
           | Inr job_ids \<Rightarrow>
               Inr (EmployerStats jobs_count active_jobs_count
                      (if job_ids \<noteq> []
                       then count_documents L (applications db)
                              [Has ''job_id'' (In_list job_ids)]
                       else 0)))"

section \<open>The surface as a transition system\<close>

datatype request =
    Register UserCreate string datetime
  | Login UserLogin
  | GetUser string
  | UpdateProfile string doc
  | CreateJob JobCreate string string datetime
  | GetJobs int int "string option" "string option" "string option"
  | GetJob string
  | GetEmployerJobs string
  | Apply ApplicationCreate string string datetime
  | GetUserApplications string
  | GetJobApplications string
  | DashboardStats string string

datatype response =
    UserBody UserResponse
  | JobBody JobResponse
  | JobList "JobResponse list"
  | ApplicationBody ApplicationResponse
  | ApplicationList "ApplicationResponse list"
  | Message string
  | StatsBody stats

fun step :: "libs \<Rightarrow> store \<Rightarrow> request \<Rightarrow> (error + response) \<times> store" where
  "step L db (Register user_data new_id now) =
     (let (r, db') = register_user L db user_data new_id now in (map_sum id UserBody r, db'))"
| "step L db (Login login_data) = (map_sum id UserBody (login_user L db login_data), db)"
| "step L db (GetUser user_id) = (map_sum id UserBody (get_user L db user_id), db)"
| "step L db (UpdateProfile user_id profile_data) =
     (let (r, db') = update_user_profile L db user_id profile_data
      in (map_sum id Message r, db'))"
| "step L db (CreateJob job_data employer_id new_id now) =
     (let (r, db') = create_job L db job_data employer_id new_id now
      in (map_sum id JobBody r, db'))"
| "step L db (GetJobs skip limit search location job_type) =
     (map_sum id JobList (get_jobs L db skip limit search location job_type), db)"
| "step L db (GetJob job_id) = (map_sum id JobBody (get_job L db job_id), db)"
| "step L db (GetEmployerJobs employer_id) =
     (map_sum id JobList (get_employer_jobs L db employer_id), db)"
| "step L db (Apply application_data applicant_id new_id now) =
     (let (r, db') = apply_for_job L db application_data applicant_id new_id now
      in (map_sum id ApplicationBody r, db'))"
| "step L db (GetUserApplications user_id) =
     (map_sum id ApplicationList (get_user_applications L db user_id), db)"
| "step L db (GetJobApplications job_id) =
     (map_sum id ApplicationList (get_job_applications L db job_id), db)"
| "step L db (DashboardStats user_id user_type) =
     (map_sum id StatsBody (get_dashboard_stats L db user_id user_type), db)"

text \<open>The stores that the surface produces from the empty store.\<close>

inductive reachable :: "libs \<Rightarrow> store \<Rightarrow> bool" for L :: libs where
  reachable_empty: "reachable L empty_store"
| reachable_step: "reachable L db \<Longrightarrow> reachable L (snd (step L db req))"

section \<open>Case-insensitive substrings and a sample of the library functions\<close>

text \<open>
  What the specification calls a case-insensitive substring match: the pattern occurs in
  the text as a contiguous run once both are lower-cased (ASCII letters).
\<close>

definition lower :: "char \<Rightarrow> char" where
  "lower c =
     (case map_of (zip ''ABCDEFGHIJKLMNOPQRSTUVWXYZ'' ''abcdefghijklmnopqrstuvwxyz'') c of
        Some l \<Rightarrow> l
      | None \<Rightarrow> c)"


text \<open>
  A regular-expression engine for the patterns built from literal characters and the
  wildcard \<^verbatim>\<open>.\<close> (any character but a newline), searched anywhere in the text without
  regard to case: on these patterns it does what the database's engine does. A pattern
  with another special character is outside this sample and is rejected by it.
\<close>

definition regex_special :: string where
  "regex_special = CHR 0x5C # ''^$.|?*+()[]{}''"

definition char_matches :: "char \<Rightarrow> char \<Rightarrow> bool" where
  "char_matches p c = (if p = CHR ''.'' then c \<noteq> CHR 0x0A else lower p = lower c)"

fun match_here :: "string \<Rightarrow> string \<Rightarrow> bool" where
  "match_here [] t = True"
| "match_here (p # ps) [] = False"
| "match_here (p # ps) (c # cs) = (char_matches p c \<and> match_here ps cs)"

fun search_in :: "string \<Rightarrow> string \<Rightarrow> bool" where
  "search_in p [] = match_here p []"
| "search_in p (c # cs) = (match_here p (c # cs) \<or> search_in p cs)"

definition dot_literal_regex :: "string \<Rightarrow> (string \<Rightarrow> bool) option" where
  "dot_literal_regex p =
     (if list_ex (\<lambda>c. c \<noteq> CHR ''.'' \<and> c \<in> set regex_special) p then None
      else Some (search_in p))"


text \<open>
  A sample of the library functions that agrees with Python on the one timestamp the
  examples use, the epoch, written with or without its UTC offset.
\<close>

definition sample_time :: datetime where
  "sample_time = Datetime 0"

definition sample_libs :: libs where
  "sample_libs =
     \<lparr>isoformat = (\<lambda>t. if t = sample_time then ''1970-01-01T00:00:00+00:00'' else []),
      fromisoformat =
        (\<lambda>s. if s = ''1970-01-01T00:00:00+00:00'' \<or> s = ''1970-01-01T00:00:00''
             then Some sample_time else None),
      parse_datetime =
        (\<lambda>s. if s = ''1970-01-01T00:00:00+00:00'' \<or> s = ''1970-01-01T00:00:00''
             then Some sample_time else None),
      regex_i = dot_literal_regex\<rparr>"

definition sample_user :: UserCreate where
  "sample_user = \<lparr>uc_email = ''ann@example.com'', uc_password = ''secret'',
     uc_name = ''Ann'', uc_user_type = ''job_seeker''\<rparr>"


definition sample_job :: JobCreate where
  "sample_job = \<lparr>jc_title = ''Software Engineer'', jc_company = ''Acme'',
     jc_location = ''San Francisco'', jc_job_type = ''full-time'',
     jc_salary_range = None, jc_description = ''Build things'',
     jc_requirements = [''Python''], jc_benefits = []\<rparr>"

text \<open>The store after employer \<open>e1\<close> has posted the sample job, its document and its view.\<close>

definition store_one_job :: store where
  "store_one_job = snd (create_job sample_libs empty_store sample_job ''e1'' ''j1'' sample_time)"

definition sample_job_doc :: doc where
  "sample_job_doc = prepare_for_mongo sample_libs (Job_dict sample_job ''e1'' ''j1'' sample_time)"

definition sample_job_response :: JobResponse where
  "sample_job_response =
     \<lparr>jr_id = ''j1'', jr_title = ''Software Engineer'', jr_company = ''Acme'',
      jr_location = ''San Francisco'', jr_job_type = ''full-time'', jr_salary_range = None,
      jr_description = ''Build things'', jr_requirements = [''Python''], jr_benefits = [],
      jr_employer_id = ''e1'', jr_posted_at = sample_time, jr_status = ''active''\<rparr>"

text \<open>
  A user whose name, and a job whose title, reads as a timestamp: strings that a request
  body may carry in a \<^verbatim>\<open>str\<close> field.
\<close>

definition timestamp_user :: UserCreate where
  "timestamp_user = \<lparr>uc_email = ''bob@example.com'', uc_password = ''pw'',
     uc_name = ''1970-01-01T00:00:00'', uc_user_type = ''employer''\<rparr>"

definition timestamp_job :: JobCreate where
  "timestamp_job = sample_job\<lparr>jc_title := ''1970-01-01T00:00:00''\<rparr>"

section \<open>Notions used in the statements about applications\<close>

text \<open>
  Some stored application carries the job id and the applicant id: what the duplicate
  check of \<^verbatim>\<open>apply_for_job\<close> finds.
\<close>

definition already_applied :: "store \<Rightarrow> string \<Rightarrow> string \<Rightarrow> bool" where
  "already_applied db job_id applicant_id =
     list_ex (\<lambda>a. eq_match (map_of a ''job_id'') (PStr job_id)
                  \<and> eq_match (map_of a ''applicant_id'') (PStr applicant_id))
       (applications db)"

text \<open>
  The string that field \<open>k\<close> of a looked-up document holds, if the lookup found a document
  and the field holds a string; and the condition under which the field can go into an
  \<^verbatim>\<open>Optional[str]\<close> field of a response: the lookup missed, or the field holds a string or
  \<^verbatim>\<open>None\<close>.
\<close>

definition found_str :: "doc option \<Rightarrow> string \<Rightarrow> string option" where
  "found_str d k =
     (case d of
        None \<Rightarrow> None
      | Some x \<Rightarrow> (case map_of x k of Some (PStr s) \<Rightarrow> Some s | _ \<Rightarrow> None))"

definition enrichable :: "doc option \<Rightarrow> string \<Rightarrow> bool" where
  "enrichable d k =
     (case d of
        None \<Rightarrow> True
      | Some x \<Rightarrow>
          (case map_of x k of Some (PStr s) \<Rightarrow> True | Some PNone \<Rightarrow> True | _ \<Rightarrow> False))"

text \<open>The last part of \<^verbatim>\<open>apply_for_job\<close>, from the two lookups to the response.\<close>

definition enriched_answer ::
  "libs \<Rightarrow> doc option \<Rightarrow> doc option \<Rightarrow> doc \<Rightarrow> error + ApplicationResponse" where
  "enriched_answer L job applicant app_obj =
     (case enrich_job job app_obj of
        Inl e \<Rightarrow> Inl e
      | Inr data1 \<Rightarrow>
          (case enrich_applicant applicant data1 of
             Inl e \<Rightarrow> Inl e
           | Inr response_data \<Rightarrow> validated (ApplicationResponse_validate L response_data)))"

section \<open>Sample stores for the statements about applications\<close>

definition sample_application :: ApplicationCreate where
  "sample_application = \<lparr>ac_job_id = ''j1'', ac_cover_letter = Some ''Hello''\<rparr>"

definition sample_user_doc :: doc where
  "sample_user_doc = prepare_for_mongo sample_libs (User_dict sample_user ''u1'' sample_time)"

definition sample_application_doc :: doc where
  "sample_application_doc =
     prepare_for_mongo sample_libs (Application_dict sample_application ''u1'' ''a1'' sample_time)"

text \<open>The sample job posted and the sample user registered.\<close>

definition store_job_and_user :: store where
  "store_job_and_user = snd (register_user sample_libs store_one_job sample_user ''u1'' sample_time)"

text \<open>Then the request \<^verbatim>\<open>PUT /users/u1/profile\<close> with the body \<^verbatim>\<open>{"name": null}\<close>.\<close>

definition store_null_name :: store where
  "store_null_name =
     snd (update_user_profile sample_libs store_job_and_user ''u1'' [(''name'', PNone)])"

text \<open>A store whose one job is closed.\<close>

definition store_closed_job :: store where
  "store_closed_job =
     \<lparr>users = [], jobs = [AList.update ''status'' (PStr ''closed'') sample_job_doc],
      applications = []\<rparr>"

definition sample_apply_request :: request where
  "sample_apply_request = Apply sample_application ''u1'' ''a1'' sample_time"

section \<open>Well-formed job and application documents\<close>

text \<open>
  The fields that the dashboard reads hold strings: so it is in every job document that
  \<^verbatim>\<open>create_job\<close> stores and in every application document that \<^verbatim>\<open>apply_for_job\<close> stores,
  and no operation of the surface updates a job or an application.
\<close>

definition str_valued :: "doc \<Rightarrow> string \<Rightarrow> bool" where
  "str_valued d k = (case map_of d k of Some (PStr s) \<Rightarrow> True | _ \<Rightarrow> False)"

definition jobs_well_formed :: "store \<Rightarrow> bool" where
  "jobs_well_formed db =
     list_all (\<lambda>j. str_valued j ''id'' \<and> str_valued j ''employer_id'' \<and> str_valued j ''status'')
       (jobs db)"

definition applications_well_formed :: "store \<Rightarrow> bool" where
  "applications_well_formed db = list_all (\<lambda>a. str_valued a ''job_id'') (applications db)"

section \<open>Notions and samples for the statements on lookups\<close>

text \<open>
  Field \<open>k\<close> of a document is the string \<open>s\<close>, or a list that holds \<open>s\<close>: the documents
  that the database finds for the query \<^verbatim>\<open>{k: s}\<close>; and the first of them in a collection,
  which is what \<^verbatim>\<open>find_one\<close> returns for that query.
\<close>

definition holds_str :: "doc \<Rightarrow> string \<Rightarrow> string \<Rightarrow> bool" where
  "holds_str d k s =
     (map_of d k = Some (PStr s) \<or> (\<exists>xs. map_of d k = Some (PList xs) \<and> s \<in> set xs))"

definition find_first :: "doc list \<Rightarrow> string \<Rightarrow> string \<Rightarrow> doc option" where
  "find_first coll k s = List.find (\<lambda>d. holds_str d k s) coll"

text \<open>
  Job id and applicant id of every stored application are strings: so it is in every
  document that \<^verbatim>\<open>apply_for_job\<close> stores.
\<close>

definition applications_keyed :: "store \<Rightarrow> bool" where
  "applications_keyed db =
     list_all (\<lambda>a. str_valued a ''job_id'' \<and> str_valued a ''applicant_id'') (applications db)"


definition bob_user :: UserCreate where
  "bob_user = \<lparr>uc_email = ''bob@example.com'', uc_password = ''pw'', uc_name = ''Bob'',
     uc_user_type = ''employer''\<rparr>"

definition unknown_job_application :: ApplicationCreate where
  "unknown_job_application = \<lparr>ac_job_id = ''j9'', ac_cover_letter = None\<rparr>"

text \<open>
  The store with the sample job and the sample user after one more request,
  \<^verbatim>\<open>PUT /users/u1/profile\<close>, with the body \<^verbatim>\<open>{"email": ["bob@example.com"]}\<close>, with the body
  \<^verbatim>\<open>{"name": ["A"]}\<close>, and with the body \<^verbatim>\<open>{"resume": "UEsDBBQAAAAI"}\<close>.
\<close>

definition store_array_email :: store where
  "store_array_email =
     snd (update_user_profile sample_libs store_job_and_user ''u1''
            [(''email'', PList [''bob@example.com''])])"

definition store_list_name :: store where
  "store_list_name =
     snd (update_user_profile sample_libs store_job_and_user ''u1'' [(''name'', PList [''A''])])"

definition store_with_resume :: store where
  "store_with_resume =
     snd (update_user_profile sample_libs store_job_and_user ''u1''
            [(''resume'', PStr ''UEsDBBQAAAAI'')])"

section \<open>Lemmas on the store and on validation\<close>

lemma map_of_parse_from_mongo:
  "map_of (parse_from_mongo L d) k = map_option (parse_value L) (map_of d k)"
  by (simp add: parse_from_mongo_def map_of_map)

lemma map_of_prepare_for_mongo:
  "map_of (prepare_for_mongo L d) k =
     map_option (\<lambda>v. case v of PDatetime t \<Rightarrow> PStr (isoformat L t) | _ \<Rightarrow> v) (map_of d k)"
  by (simp add: prepare_for_mongo_def map_of_map)

lemma parse_value_PStr:
  "parse_value L v = PStr s \<Longrightarrow> v = PStr s"
  by (auto simp: parse_value_def split: pyval.splits if_splits option.splits)

lemma str_field_parse_from_mongo:
  "str_field (parse_from_mongo L d) k = Some s \<Longrightarrow> map_of d k = Some (PStr s)"
  by (auto simp: str_field_def map_of_parse_from_mongo split: option.splits pyval.splits
      dest: parse_value_PStr)

lemma JobResponse_validate_fields:
  assumes "JobResponse_validate L d = Some r"
  shows "str_field d ''status'' = Some (jr_status r)"
    and "str_field d ''job_type'' = Some (jr_job_type r)"
  using assms unfolding JobResponse_validate_def
  by (auto simp: bind_eq_Some_conv)

lemma collect_map_Inr:
  "collect (map f xs) = Inr ys \<Longrightarrow> y \<in> set ys \<Longrightarrow> \<exists>x\<in>set xs. f x = Inr y"
  by (induction xs arbitrary: ys) (auto split: sum.splits)

lemma set_insert_desc: "set (insert_desc k d ds) = insert d (set ds)"
  by (induction ds) auto

lemma set_sort_desc: "set (sort_desc k ds) = set ds"
  unfolding sort_desc_def by (induction ds) (auto simp: set_insert_desc)

lemma set_limit_docs: "set (limit_docs n ds) \<subseteq> set ds"
  by (auto simp: limit_docs_def dest: in_set_takeD)

lemma set_find_docs: "set (find_docs L coll q) = {d \<in> set coll. matches L q d}"
  by (simp add: find_docs_def)

lemma find_one_None: "find_one L coll q = None \<longleftrightarrow> \<not> list_ex (matches L q) coll"
proof -
  have "find_one L coll q = None \<longleftrightarrow> set (find_docs L coll q) = {}"
    by (simp add: find_one_def split: list.splits)
  then show ?thesis
    by (auto simp: set_find_docs list_ex_iff)
qed




lemma UserResponse_validate_User_dict:
  "UserResponse_validate L (User_dict ud nid now) =
     Some \<lparr>ur_id = nid, ur_email = uc_email ud, ur_name = uc_name ud,
       ur_user_type = uc_user_type ud, ur_profile_image = None, ur_title = None,
       ur_location = None, ur_bio = None, ur_company = None, ur_skills = [],
       ur_experience = None, ur_education = None, ur_created_at = now\<rparr>"
  by (simp add: UserResponse_validate_def User_dict_def str_field_def opt_str_field_def
      str_list_field_def datetime_field_def)

lemma matches_single_eq:
  "matches L [Has k (Equals v)] d = eq_match (map_of d k) v"
  by (simp add: matches_def)

section \<open>Listing jobs\<close>

lemma eq_match_status_parsed:
  assumes "eq_match (map_of d k) (PStr s)"
    and "str_field (parse_from_mongo L d) k = Some s'"
  shows "s' = s"
proof -
  from assms(2) have "map_of d k = Some (PStr s')"
    by (rule str_field_parse_from_mongo)
  with assms(1) show ?thesis by simp
qed

lemma matches_get_jobs_query_status:
  "matches L (get_jobs_query search location job_type) d \<Longrightarrow>
     eq_match (map_of d ''status'') (PStr ''active'')"
  by (simp add: matches_def get_jobs_query_def)

lemma matches_get_jobs_query_job_type:
  "matches L (get_jobs_query search location (Some t)) d \<Longrightarrow> t \<noteq> [] \<Longrightarrow>
     eq_match (map_of d ''job_type'') (PStr t)"
  by (simp add: matches_def get_jobs_query_def)

lemma get_jobs_page_source:
  assumes "get_jobs L db skip limit search location job_type = Inr page" and "j \<in> set page"
  shows "\<exists>d\<in>set (jobs db). matches L (get_jobs_query search location job_type) d
           \<and> JobResponse_validate L (parse_from_mongo L d) = Some j"
proof -
  let ?q = "get_jobs_query search location job_type"
  let ?found = "limit_docs limit (drop (nat skip) (sort_desc ''posted_at'' (find_docs L (jobs db) ?q)))"
  from assms(1) have "collect (map (\<lambda>job. validated (JobResponse_validate L job))
                        (map (parse_from_mongo L) ?found)) = Inr page"
    by (simp add: get_jobs_def Let_def split: if_splits)
  from collect_map_Inr [OF this assms(2)]
  obtain d where d: "d \<in> set ?found" "validated (JobResponse_validate L (parse_from_mongo L d)) = Inr j"
    by auto
  from d(1) have "d \<in> set (drop (nat skip) (sort_desc ''posted_at'' (find_docs L (jobs db) ?q)))"
    using set_limit_docs by blast
  then have "d \<in> set (sort_desc ''posted_at'' (find_docs L (jobs db) ?q))"
    by (rule in_set_dropD)
  then have "d \<in> set (find_docs L (jobs db) ?q)"
    by (simp add: set_sort_desc)
  then have "d \<in> set (jobs db)" "matches L ?q d"
    by (simp_all add: set_find_docs)
  moreover from d(2) have "JobResponse_validate L (parse_from_mongo L d) = Some j"
    by (simp add: validated_def split: option.splits)
  ultimately show ?thesis by blast
qed

lemmas sample_eval =
  store_one_job_def create_job_def Let_def empty_store_def insert_one_def
        Job_dict_def prepare_for_mongo_def sample_job_def sample_libs_def
        get_jobs_def get_jobs_query_def query_valid_def find_docs_def matches_def sort_desc_def
        limit_docs_def parse_from_mongo_def parse_value_def replace_Z_def
        JobResponse_validate_def str_field_def opt_str_field_def str_list_field_def
        datetime_field_def validated_def sample_job_response_def

lemma store_one_job_jobs:
  "store_one_job =
     \<lparr>users = [],
      jobs = [[(''id'', PStr ''j1''), (''title'', PStr ''Software Engineer''),
               (''company'', PStr ''Acme''), (''location'', PStr ''San Francisco''),
               (''job_type'', PStr ''full-time''), (''salary_range'', PNone),
               (''description'', PStr ''Build things''), (''requirements'', PList [''Python'']),
               (''benefits'', PList []), (''employer_id'', PStr ''e1''),
               (''posted_at'', PStr ''1970-01-01T00:00:00+00:00''), (''expires_at'', PNone),
               (''status'', PStr ''active'')]],
      applications = []\<rparr>"
  by (simp add: sample_eval)

text \<open>
  Claim C2 (as amended). Whenever list-jobs answers with a page, whatever the skip, limit,
  search, location and job type, every job of the page has status \<^verbatim>\<open>active\<close>; and when the
  job type filter is a non-empty string, every job of the page has exactly that job type.
\<close>

theorem get_jobs_only_active_and_of_type:
  assumes "get_jobs L db skip limit search location job_type = Inr page"
  shows "(\<forall>j\<in>set page. jr_status j = ''active'')
       \<and> (\<forall>t. job_type = Some t \<and> t \<noteq> [] \<longrightarrow> (\<forall>j\<in>set page. jr_job_type j = t))"
proof (intro conjI ballI allI impI)
  fix j assume "j \<in> set page"
  from get_jobs_page_source [OF assms this] obtain d
    where d: "matches L (get_jobs_query search location job_type) d"
      "JobResponse_validate L (parse_from_mongo L d) = Some j" by blast
  from eq_match_status_parsed [OF matches_get_jobs_query_status [OF d(1)]
      JobResponse_validate_fields(1) [OF d(2)]]
  show "jr_status j = ''active''" .
next
  fix t j assume t: "job_type = Some t \<and> t \<noteq> []" and "j \<in> set page"
  from get_jobs_page_source [OF assms this(2)] obtain d
    where d: "matches L (get_jobs_query search location job_type) d"
      "JobResponse_validate L (parse_from_mongo L d) = Some j" by blast
  from d(1) t have "eq_match (map_of d ''job_type'') (PStr t)"
    using matches_get_jobs_query_job_type by blast
  from eq_match_status_parsed [OF this JobResponse_validate_fields(2) [OF d(2)]]
  show "jr_job_type j = t" .
qed

text \<open>Filtering the sample store by the job type of its one job returns that job.\<close>

theorem get_jobs_only_active_and_of_type_witness:
  "get_jobs sample_libs store_one_job 0 20 None None (Some ''full-time'')
     = Inr [sample_job_response]
   \<and> jr_status sample_job_response = ''active''
   \<and> jr_job_type sample_job_response = ''full-time''"
proof -
  have run: "get_jobs sample_libs store_one_job 0 20 None None (Some ''full-time'')
     = Inr [sample_job_response]"
    by (simp add: store_one_job_jobs) (simp add: sample_eval)
  from get_jobs_only_active_and_of_type [OF run] show ?thesis
    using run by simp
qed

text \<open>
  Claim C2 as stated fails for the empty job type: \<^verbatim>\<open>if job_type:\<close> is false for it, no
  filter is added, and the page holds a job whose type is not the empty string.
\<close>

theorem get_jobs_empty_job_type_counterexample:
  "get_jobs sample_libs store_one_job 0 20 None None (Some '''') = Inr [sample_job_response]
   \<and> jr_job_type sample_job_response = ''full-time''"
  by (simp add: store_one_job_jobs) (simp add: sample_eval)

section \<open>The search and location filters\<close>






section \<open>Lemmas on overwritten documents\<close>



section \<open>Strings that read as timestamps\<close>

text \<open>
  \<^verbatim>\<open>parse_from_mongo\<close> turns every stored string that holds a \<^verbatim>\<open>T\<close> and that
  \<^verbatim>\<open>datetime.fromisoformat\<close> accepts into a \<^verbatim>\<open>datetime\<close>, in whatever field it stands; the
  response model then refuses it in a \<^verbatim>\<open>str\<close> field.
\<close>

lemma str_field_timestamp_like:
  assumes "map_of d k = Some (PStr s)" and "CHR ''T'' \<in> set s"
    and "fromisoformat L (replace_Z s) = Some t"
  shows "str_field (parse_from_mongo L d) k = None"
  using assms by (simp add: str_field_def map_of_parse_from_mongo parse_value_def)

lemma login_user_timestamp_like_name:
  assumes "find_one L (users db)
             [Has ''email'' (Equals (PStr (ul_email login_data))),
              Has ''password'' (Equals (PStr (ul_password login_data)))] = Some user"
    and "map_of user ''name'' = Some (PStr s)" and "CHR ''T'' \<in> set s"
    and "fromisoformat L (replace_Z s) = Some t"
  shows "login_user L db login_data = Inl ValidationError"
  using assms(1) str_field_timestamp_like [OF assms(2-4)]
  by (simp add: login_user_def UserResponse_validate_def validated_def bind_eq_None_conv)

text \<open>
  Claim C7 (the code departs from it). A user registered with a name that reads as a
  timestamp gets the public view back from register, and a login with the correct email and
  password then ends with pydantic's \<^verbatim>\<open>ValidationError\<close> (status 500) instead of the
  public view.
\<close>

theorem login_fails_for_timestamp_like_name:
  "fst (register_user sample_libs empty_store timestamp_user ''u1'' sample_time) =
     Inr \<lparr>ur_id = ''u1'', ur_email = ''bob@example.com'', ur_name = ''1970-01-01T00:00:00'',
        ur_user_type = ''employer'', ur_profile_image = None, ur_title = None,
        ur_location = None, ur_bio = None, ur_company = None, ur_skills = [],
        ur_experience = None, ur_education = None, ur_created_at = sample_time\<rparr>
   \<and> login_user sample_libs
        (snd (register_user sample_libs empty_store timestamp_user ''u1'' sample_time))
        \<lparr>ul_email = ''bob@example.com'', ul_password = ''pw''\<rparr> = Inl ValidationError
   \<and> status_code ValidationError = 500"
  by (simp add: register_user_def login_user_def find_one_def find_docs_def matches_def
      empty_store_def timestamp_user_def User_dict_def prepare_for_mongo_def insert_one_def
      Let_def validated_def UserResponse_validate_def str_field_def opt_str_field_def
      str_list_field_def datetime_field_def parse_from_mongo_def parse_value_def replace_Z_def
      sample_libs_def)

lemma get_job_timestamp_like_title:
  assumes "find_one L (jobs db) [Has ''id'' (Equals (PStr job_id))] = Some job"
    and "map_of job ''title'' = Some (PStr s)" and "CHR ''T'' \<in> set s"
    and "fromisoformat L (replace_Z s) = Some t"
  shows "get_job L db job_id = Inl ValidationError"
  using assms(1) str_field_timestamp_like [OF assms(2-4)]
  by (simp add: get_job_def JobResponse_validate_def validated_def)

text \<open>
  Claim C4 (the code departs from it). A job created with a title that reads as a
  timestamp is returned unchanged by the creation, and the fetch by its id then ends with
  pydantic's \<^verbatim>\<open>ValidationError\<close> (status 500) instead of the job.
\<close>

theorem get_job_fails_for_timestamp_like_title:
  "fst (create_job sample_libs empty_store timestamp_job ''e1'' ''j1'' sample_time) =
     Inr (sample_job_response\<lparr>jr_title := ''1970-01-01T00:00:00''\<rparr>)
   \<and> get_job sample_libs
        (snd (create_job sample_libs empty_store timestamp_job ''e1'' ''j1'' sample_time)) ''j1''
       = Inl ValidationError
   \<and> status_code ValidationError = 500"
  by (simp add: create_job_def get_job_def find_one_def find_docs_def matches_def
      empty_store_def timestamp_job_def sample_job_def Job_dict_def prepare_for_mongo_def
      insert_one_def Let_def validated_def JobResponse_validate_def str_field_def
      opt_str_field_def str_list_field_def datetime_field_def parse_from_mongo_def
      parse_value_def replace_Z_def sample_libs_def sample_job_response_def)

section \<open>Applying for a job\<close>

lemma apply_for_job_unfold:
  "apply_for_job L db ad aid nid now =
     (if already_applied db (ac_job_id ad) aid
      then (Inl (HTTPException 400 ''Already applied for this job''), db)
      else (enriched_answer L
              (find_one L (jobs db) [Has ''id'' (Equals (PStr (ac_job_id ad)))])
              (find_one L (users db) [Has ''id'' (Equals (PStr aid))])
              (Application_dict ad aid nid now),
            db\<lparr>applications :=
                 applications db @ [prepare_for_mongo L (Application_dict ad aid nid now)]\<rparr>))"
proof -
  have "find_one L (applications db)
          [Has ''job_id'' (Equals (PStr (ac_job_id ad))), Has ''applicant_id'' (Equals (PStr aid))]
        = None \<longleftrightarrow> \<not> already_applied db (ac_job_id ad) aid"
    by (simp add: find_one_None already_applied_def list_ex_iff matches_def)
  then show ?thesis
    by (cases "find_one L (applications db)
          [Has ''job_id'' (Equals (PStr (ac_job_id ad))), Has ''applicant_id'' (Equals (PStr aid))]")
       (simp_all add: apply_for_job_def Let_def enriched_answer_def insert_one_def
          cong: sum.case_cong)
qed

lemma enrich_job_Inr:
  assumes "enrich_job job data = Inr data1"
  shows "(\<forall>k. k \<noteq> ''job_title'' \<longrightarrow> k \<noteq> ''company'' \<longrightarrow> map_of data1 k = map_of data k)
       \<and> (job = None \<longrightarrow> data1 = data)
       \<and> (\<forall>j. job = Some j \<longrightarrow> map_of j ''title'' \<noteq> None \<and> map_of j ''company'' \<noteq> None
              \<and> map_of data1 ''job_title'' = map_of j ''title''
              \<and> map_of data1 ''company'' = map_of j ''company'')"
  using assms
  by (auto simp: enrich_job_def subscript_def update_conv' split: option.splits)

lemma enrich_applicant_Inr:
  assumes "enrich_applicant applicant data = Inr data2"
  shows "(\<forall>k. k \<noteq> ''applicant_name'' \<longrightarrow> map_of data2 k = map_of data k)
       \<and> (applicant = None \<longrightarrow> data2 = data)
       \<and> (\<forall>a. applicant = Some a \<longrightarrow> map_of a ''name'' \<noteq> None
              \<and> map_of data2 ''applicant_name'' = map_of a ''name'')"
  using assms
  by (auto simp: enrich_applicant_def subscript_def update_conv' split: option.splits)

lemma enrich_job_enrichable:
  assumes "enrichable job ''title''" and "enrichable job ''company''"
  shows "\<exists>data1. enrich_job job data = Inr data1"
  using assms
  by (auto simp: enrich_job_def subscript_def enrichable_def split: option.splits)

lemma enrich_applicant_enrichable:
  assumes "enrichable applicant ''name''"
  shows "\<exists>data2. enrich_applicant applicant data = Inr data2"
  using assms
  by (auto simp: enrich_applicant_def subscript_def enrichable_def split: option.splits)

lemma opt_str_field_found:
  assumes "enrichable d k" and "d = None \<longrightarrow> map_of data k' = None"
    and "\<forall>x. d = Some x \<longrightarrow> map_of data k' = map_of x k"
  shows "opt_str_field data k' = Some (found_str d k)"
  using assms
  by (cases d) (auto simp: opt_str_field_def enrichable_def found_str_def
      split: option.splits pyval.splits)

lemma opt_str_field_not_enrichable:
  assumes "\<not> enrichable d k" and "d = Some x" and "map_of data k' = map_of x k"
    and "map_of x k \<noteq> None"
  shows "opt_str_field data k' = None"
  using assms
  by (auto simp: opt_str_field_def enrichable_def split: option.splits pyval.splits)

lemma Application_dict_fields:
  "map_of (Application_dict ad aid nid now) ''id'' = Some (PStr nid)"
  "map_of (Application_dict ad aid nid now) ''job_id'' = Some (PStr (ac_job_id ad))"
  "map_of (Application_dict ad aid nid now) ''applicant_id'' = Some (PStr aid)"
  "map_of (Application_dict ad aid nid now) ''cover_letter'' = Some (opt_val (ac_cover_letter ad))"
  "map_of (Application_dict ad aid nid now) ''status'' = Some (PStr ''pending'')"
  "map_of (Application_dict ad aid nid now) ''applied_at'' = Some (PDatetime now)"
  "map_of (Application_dict ad aid nid now) ''notes'' = Some PNone"
  "map_of (Application_dict ad aid nid now) ''job_title'' = None"
  "map_of (Application_dict ad aid nid now) ''company'' = None"
  "map_of (Application_dict ad aid nid now) ''applicant_name'' = None"
  by (simp_all add: Application_dict_def)

lemma opt_str_field_opt_val:
  "map_of d k = Some (opt_val c) \<Longrightarrow> opt_str_field d k = Some c"
  by (cases c) (simp_all add: opt_str_field_def)

lemma enriched_answer_ok:
  assumes "enrichable job ''title''" and "enrichable job ''company''"
    and "enrichable applicant ''name''"
  shows "enriched_answer L job applicant (Application_dict ad aid nid now) =
     Inr \<lparr>ar_id = nid, ar_job_id = ac_job_id ad, ar_applicant_id = aid,
          ar_cover_letter = ac_cover_letter ad, ar_status = ''pending'',
          ar_applied_at = now, ar_job_title = found_str job ''title'',
          ar_company = found_str job ''company'',
          ar_applicant_name = found_str applicant ''name''\<rparr>"
proof -
  let ?d0 = "Application_dict ad aid nid now"
  from enrich_job_enrichable [OF assms(1,2)] obtain d1
    where d1: "enrich_job job ?d0 = Inr d1" by blast
  from enrich_applicant_enrichable [OF assms(3)] obtain d2
    where d2: "enrich_applicant applicant d1 = Inr d2" by blast
  note j = enrich_job_Inr [OF d1] and a = enrich_applicant_Inr [OF d2]
  have base: "map_of d2 ''id'' = Some (PStr nid)"
    "map_of d2 ''job_id'' = Some (PStr (ac_job_id ad))"
    "map_of d2 ''applicant_id'' = Some (PStr aid)"
    "map_of d2 ''cover_letter'' = Some (opt_val (ac_cover_letter ad))"
    "map_of d2 ''status'' = Some (PStr ''pending'')"
    "map_of d2 ''applied_at'' = Some (PDatetime now)"
    using j a by (simp_all add: Application_dict_fields)
  have jt: "opt_str_field d2 ''job_title'' = Some (found_str job ''title'')"
    by (rule opt_str_field_found [OF assms(1)]) (use j a in \<open>simp_all add: Application_dict_fields\<close>)
  have co: "opt_str_field d2 ''company'' = Some (found_str job ''company'')"
    by (rule opt_str_field_found [OF assms(2)]) (use j a in \<open>simp_all add: Application_dict_fields\<close>)
  have an: "opt_str_field d2 ''applicant_name'' = Some (found_str applicant ''name'')"
    by (rule opt_str_field_found [OF assms(3)]) (use j a in \<open>auto simp: Application_dict_fields\<close>)
  have "ApplicationResponse_validate L d2 =
     Some \<lparr>ar_id = nid, ar_job_id = ac_job_id ad, ar_applicant_id = aid,
          ar_cover_letter = ac_cover_letter ad, ar_status = ''pending'',
          ar_applied_at = now, ar_job_title = found_str job ''title'',
          ar_company = found_str job ''company'',
          ar_applicant_name = found_str applicant ''name''\<rparr>"
    by (simp add: ApplicationResponse_validate_def str_field_def datetime_field_def base
        opt_str_field_opt_val jt co an)
  then show ?thesis
    by (simp add: enriched_answer_def d1 d2 validated_def)
qed

lemma enriched_answer_Inl:
  "enriched_answer L job applicant data = Inl e \<Longrightarrow> status_code e = 500"
  by (auto simp: enriched_answer_def enrich_job_def enrich_applicant_def subscript_def
      validated_def split: option.splits sum.splits)

lemma ApplicationResponse_validate_opt_fields:
  assumes "ApplicationResponse_validate L d = Some r"
  shows "opt_str_field d ''job_title'' \<noteq> None" and "opt_str_field d ''company'' \<noteq> None"
    and "opt_str_field d ''applicant_name'' \<noteq> None"
  using assms unfolding ApplicationResponse_validate_def
  by (auto simp: bind_eq_Some_conv)

lemma not_enrichableD:
  "\<not> enrichable d k \<Longrightarrow> \<exists>x. d = Some x"
  by (cases d) (simp_all add: enrichable_def)

lemma enriched_answer_Inr_enrichable:
  assumes "enriched_answer L job applicant data = Inr r"
  shows "enrichable job ''title'' \<and> enrichable job ''company'' \<and> enrichable applicant ''name''"
proof -
  from assms obtain d1 d2 where d1: "enrich_job job data = Inr d1"
    and d2: "enrich_applicant applicant d1 = Inr d2"
    and v: "ApplicationResponse_validate L d2 = Some r"
    by (auto simp: enriched_answer_def validated_def split: sum.splits option.splits)
  note j = enrich_job_Inr [OF d1] and a = enrich_applicant_Inr [OF d2]
  note f = ApplicationResponse_validate_opt_fields [OF v]
  have "enrichable job ''title''"
  proof (rule ccontr)
    assume n: "\<not> enrichable job ''title''"
    then obtain x where x: "job = Some x" using not_enrichableD by blast
    have "opt_str_field d2 ''job_title'' = None"
      by (rule opt_str_field_not_enrichable [OF n x]) (use j a x in simp_all)
    with f(1) show False by simp
  qed
  moreover have "enrichable job ''company''"
  proof (rule ccontr)
    assume n: "\<not> enrichable job ''company''"
    then obtain x where x: "job = Some x" using not_enrichableD by blast
    have "opt_str_field d2 ''company'' = None"
      by (rule opt_str_field_not_enrichable [OF n x]) (use j a x in simp_all)
    with f(2) show False by simp
  qed
  moreover have "enrichable applicant ''name''"
  proof (rule ccontr)
    assume n: "\<not> enrichable applicant ''name''"
    then obtain x where x: "applicant = Some x" using not_enrichableD by blast
    have "opt_str_field d2 ''applicant_name'' = None"
      by (rule opt_str_field_not_enrichable [OF n x]) (use j a x in simp_all)
    with f(3) show False by simp
  qed
  ultimately show ?thesis by blast
qed

lemma enriched_answer_cases:
  "enriched_answer L job applicant (Application_dict ad aid nid now) =
     (if enrichable job ''title'' \<and> enrichable job ''company'' \<and> enrichable applicant ''name''
      then Inr \<lparr>ar_id = nid, ar_job_id = ac_job_id ad, ar_applicant_id = aid,
          ar_cover_letter = ac_cover_letter ad, ar_status = ''pending'',
          ar_applied_at = now, ar_job_title = found_str job ''title'',
          ar_company = found_str job ''company'',
          ar_applicant_name = found_str applicant ''name''\<rparr>
      else enriched_answer L job applicant (Application_dict ad aid nid now))
   \<and> (\<not> (enrichable job ''title'' \<and> enrichable job ''company'' \<and> enrichable applicant ''name'')
        \<longrightarrow> (\<exists>e. enriched_answer L job applicant (Application_dict ad aid nid now) = Inl e
                 \<and> status_code e = 500))"
proof (intro conjI impI)
  assume n: "\<not> (enrichable job ''title'' \<and> enrichable job ''company'' \<and> enrichable applicant ''name'')"
  show "\<exists>e. enriched_answer L job applicant (Application_dict ad aid nid now) = Inl e
                 \<and> status_code e = 500"
  proof (cases "enriched_answer L job applicant (Application_dict ad aid nid now)")
    case (Inl e)
    then show ?thesis using enriched_answer_Inl by blast
  next
    case (Inr r)
    from enriched_answer_Inr_enrichable [OF this] n show ?thesis by blast
  qed
qed (simp add: enriched_answer_ok)

lemma sample_job_doc_eq:
  "sample_job_doc =
     [(''id'', PStr ''j1''), (''title'', PStr ''Software Engineer''),
      (''company'', PStr ''Acme''), (''location'', PStr ''San Francisco''),
      (''job_type'', PStr ''full-time''), (''salary_range'', PNone),
      (''description'', PStr ''Build things''), (''requirements'', PList [''Python'']),
      (''benefits'', PList []), (''employer_id'', PStr ''e1''),
      (''posted_at'', PStr ''1970-01-01T00:00:00+00:00''), (''expires_at'', PNone),
      (''status'', PStr ''active'')]"
  by (simp add: sample_job_doc_def Job_dict_def prepare_for_mongo_def sample_job_def
      sample_libs_def)

lemma sample_user_doc_eq:
  "sample_user_doc =
     [(''id'', PStr ''u1''), (''email'', PStr ''ann@example.com''),
      (''password'', PStr ''secret''), (''name'', PStr ''Ann''),
      (''user_type'', PStr ''job_seeker''), (''profile_image'', PNone), (''title'', PNone),
      (''location'', PNone), (''bio'', PNone), (''company'', PNone), (''skills'', PList []),
      (''experience'', PNone), (''education'', PNone), (''resume'', PNone),
      (''created_at'', PStr ''1970-01-01T00:00:00+00:00'')]"
  by (simp add: sample_user_doc_def User_dict_def prepare_for_mongo_def sample_user_def
      sample_libs_def)

lemma sample_application_doc_eq:
  "sample_application_doc =
     [(''id'', PStr ''a1''), (''job_id'', PStr ''j1''), (''applicant_id'', PStr ''u1''),
      (''cover_letter'', PStr ''Hello''), (''status'', PStr ''pending''),
      (''applied_at'', PStr ''1970-01-01T00:00:00+00:00''), (''notes'', PNone)]"
  by (simp add: sample_application_doc_def Application_dict_def prepare_for_mongo_def
      sample_application_def sample_libs_def)

lemma store_one_job_eq:
  "store_one_job = \<lparr>users = [], jobs = [sample_job_doc], applications = []\<rparr>"
  by (simp add: store_one_job_def create_job_def Let_def empty_store_def insert_one_def
      sample_job_doc_def)

lemma store_job_and_user_eq:
  "store_job_and_user = \<lparr>users = [sample_user_doc], jobs = [sample_job_doc], applications = []\<rparr>"
  by (simp add: store_job_and_user_def store_one_job_eq register_user_def find_one_def
      find_docs_def Let_def insert_one_def sample_user_doc_def)

lemma store_null_name_eq:
  "store_null_name =
     \<lparr>users = [AList.update ''name'' PNone sample_user_doc], jobs = [sample_job_doc],
      applications = []\<rparr>"
  by (simp add: store_null_name_def store_job_and_user_eq update_user_profile_def find_one_def
      find_docs_def matches_def set_fields_def sample_user_doc_eq)

lemma find_one_single:
  "find_one L [d] q = (if matches L q d then Some d else None)"
  by (simp add: find_one_def find_docs_def)

lemma found_str_None: "found_str None k = None"
  by (simp add: found_str_def)

lemma enrichable_None: "enrichable None k"
  by (simp add: enrichable_def)

lemma enrichable_str: "map_of j k = Some (PStr s) \<Longrightarrow> enrichable (Some j) k"
  by (simp add: enrichable_def)

lemma found_str_str: "map_of j k = Some (PStr s) \<Longrightarrow> found_str (Some j) k = Some s"
  by (simp add: found_str_def)

section \<open>The applications collection under every operation\<close>

lemma step_applications:
  "applications (snd (step L db req)) = applications db
   \<or> (\<exists>ad aid nid now.
        applications (snd (step L db req))
          = applications db @ [prepare_for_mongo L (Application_dict ad aid nid now)])"
proof (cases req)
  case (Register ud nid now)
  then show ?thesis
    by (simp add: register_user_def Let_def split: option.splits prod.splits)
next
  case (UpdateProfile uid pd)
  then show ?thesis
    by (simp add: update_user_profile_def split: option.splits prod.splits)
next
  case (CreateJob jd eid nid now)
  then show ?thesis
    by (simp add: create_job_def Let_def split: prod.splits)
next
  case (Apply ad aid nid now)
  then show ?thesis
    by (auto simp: apply_for_job_unfold split: prod.splits)
qed simp_all

lemma step_jobs:
  "jobs (snd (step L db req)) = jobs db
   \<or> (\<exists>jd eid nid now.
        jobs (snd (step L db req)) = jobs db @ [prepare_for_mongo L (Job_dict jd eid nid now)])"
proof (cases req)
  case (Register ud nid now)
  then show ?thesis
    by (simp add: register_user_def Let_def split: option.splits prod.splits)
next
  case (UpdateProfile uid pd)
  then show ?thesis
    by (simp add: update_user_profile_def split: option.splits prod.splits)
next
  case (CreateJob jd eid nid now)
  then show ?thesis
    by (auto simp: create_job_def Let_def insert_one_def split: prod.splits)
next
  case (Apply ad aid nid now)
  then show ?thesis
    by (simp add: apply_for_job_unfold split: prod.splits)
qed simp_all

lemma pending_new_application:
  "map_of (prepare_for_mongo L (Application_dict ad aid nid now)) ''status''
     = Some (PStr ''pending'')"
  "map_of (prepare_for_mongo L (Application_dict ad aid nid now)) ''notes'' = Some PNone"
  by (simp_all add: map_of_prepare_for_mongo Application_dict_fields)

lemma reachable_applications_pending:
  assumes "reachable L db"
  shows "list_all (\<lambda>a. map_of a ''status'' = Some (PStr ''pending'')
                       \<and> map_of a ''notes'' = Some PNone) (applications db)"
  using assms
proof (induction rule: reachable.induct)
  case reachable_empty
  then show ?case by (simp add: empty_store_def)
next
  case (reachable_step db req)
  from step_applications [of L db req] reachable_step.IH show ?case
    by (auto simp: pending_new_application)
qed

lemma sample_step_store:
  "snd (step sample_libs store_job_and_user sample_apply_request)
     = store_job_and_user\<lparr>applications := [sample_application_doc]\<rparr>"
proof -
  have "\<not> already_applied store_job_and_user (ac_job_id sample_application) ''u1''"
    by (simp add: already_applied_def store_job_and_user_eq)
  then show ?thesis
    by (simp add: sample_apply_request_def apply_for_job_unfold sample_application_doc_def
        store_job_and_user_eq split: prod.splits)
qed

lemma reachable_store_job_and_user: "reachable sample_libs store_job_and_user"
proof -
  have "reachable sample_libs
          (snd (step sample_libs empty_store (CreateJob sample_job ''e1'' ''j1'' sample_time)))"
    by (rule reachable_step [OF reachable_empty])
  then have "reachable sample_libs store_one_job"
    by (simp add: store_one_job_def split: prod.splits)
  then have "reachable sample_libs
          (snd (step sample_libs store_one_job (Register sample_user ''u1'' sample_time)))"
    by (rule reachable_step)
  then show ?thesis
    by (simp add: store_job_and_user_def split: prod.splits)
qed

text \<open>
  Claim C8. In every store that the surface produces from the empty store, every
  application has status \<^verbatim>\<open>pending\<close> and notes \<^verbatim>\<open>None\<close>; and every operation leaves the
  stored applications as they are, in their places: the collection after the operation
  starts with the collection before it, and all its applications are pending.
\<close>

theorem applications_stay_pending:
  assumes "reachable L db"
  shows "list_all (\<lambda>a. map_of a ''status'' = Some (PStr ''pending'')
                       \<and> map_of a ''notes'' = Some PNone) (applications db)
       \<and> (\<forall>req. prefix (applications db) (applications (snd (step L db req)))
                \<and> list_all (\<lambda>a. map_of a ''status'' = Some (PStr ''pending'')
                                  \<and> map_of a ''notes'' = Some PNone)
                     (applications (snd (step L db req))))"
proof (intro conjI allI)
  show "list_all (\<lambda>a. map_of a ''status'' = Some (PStr ''pending'')
                       \<and> map_of a ''notes'' = Some PNone) (applications db)"
    by (rule reachable_applications_pending [OF assms])
next
  fix req
  from step_applications [of L db req]
  show "prefix (applications db) (applications (snd (step L db req)))"
    by auto
  from reachable_applications_pending [OF reachable_step [OF assms, of req]]
  show "list_all (\<lambda>a. map_of a ''status'' = Some (PStr ''pending'')
                                  \<and> map_of a ''notes'' = Some PNone)
                     (applications (snd (step L db req)))" .
qed

text \<open>
  The store after the sample job was posted, the sample user registered and the sample
  application made is reachable; its application is pending, and a second application of
  the same applicant for the same job leaves the collection as it is.
\<close>

theorem applications_stay_pending_witness:
  "reachable sample_libs (store_job_and_user\<lparr>applications := [sample_application_doc]\<rparr>)
   \<and> map_of sample_application_doc ''status'' = Some (PStr ''pending'')
   \<and> map_of sample_application_doc ''notes'' = Some PNone
   \<and> applications (snd (step sample_libs
                          (store_job_and_user\<lparr>applications := [sample_application_doc]\<rparr>)
                          sample_apply_request))
       = [sample_application_doc]"
proof -
  have r: "reachable sample_libs (store_job_and_user\<lparr>applications := [sample_application_doc]\<rparr>)"
    using reachable_step [OF reachable_store_job_and_user, of sample_apply_request]
    by (simp add: sample_step_store)
  have dup: "already_applied (store_job_and_user\<lparr>applications := [sample_application_doc]\<rparr>)
               (ac_job_id sample_application) ''u1''"
    by (simp add: already_applied_def sample_application_doc_eq sample_application_def)
  have again: "applications (snd (step sample_libs
                          (store_job_and_user\<lparr>applications := [sample_application_doc]\<rparr>)
                          sample_apply_request)) = [sample_application_doc]"
    using dup by (simp add: sample_apply_request_def apply_for_job_unfold split: prod.splits)
  from applications_stay_pending [OF r] r again show ?thesis
    by simp
qed

section \<open>Dashboard statistics of an employer\<close>

lemma str_valuedE:
  assumes "str_valued d k" obtains s where "map_of d k = Some (PStr s)"
  using assms by (auto simp: str_valued_def split: option.splits pyval.splits)

lemma eq_match_str: "eq_match (Some (PStr s)) q = (q = PStr s)"
  by (cases q) auto

lemma eq_match_str_valued:
  "str_valued d k \<Longrightarrow> eq_match (map_of d k) q = (map_of d k = Some q)"
  by (erule str_valuedE) (auto simp: eq_match_str)

lemma collect_subscript:
  assumes "list_all (\<lambda>j. str_valued j k) js"
  shows "\<exists>ids. collect (map (\<lambda>j. subscript j k) js) = Inr ids
           \<and> map Some ids = map (\<lambda>j. map_of j k) js"
  using assms
proof (induction js)
  case Nil
  then show ?case by simp
next
  case (Cons j js)
  then obtain ids where ids: "collect (map (\<lambda>j. subscript j k) js) = Inr ids"
    "map Some ids = map (\<lambda>j. map_of j k) js" by auto
  from Cons.prems obtain s where "map_of j k = Some (PStr s)"
    by (auto elim: str_valuedE)
  with ids show ?case by (simp add: subscript_def)
qed

lemma employer_jobs_filter:
  assumes "jobs_well_formed db"
  shows "find_docs L (jobs db) [Has ''employer_id'' (Equals (PStr user_id))]
           = filter (\<lambda>j. map_of j ''employer_id'' = Some (PStr user_id)) (jobs db)"
    and "find_docs L (jobs db)
           [Has ''employer_id'' (Equals (PStr user_id)),
            Has ''status'' (Equals (PStr ''active''))]
           = filter (\<lambda>j. map_of j ''status'' = Some (PStr ''active''))
               (filter (\<lambda>j. map_of j ''employer_id'' = Some (PStr user_id)) (jobs db))"
  using assms unfolding find_docs_def jobs_well_formed_def
  by (auto simp: matches_def list_all_iff eq_match_str_valued intro!: filter_cong)

lemma applications_in_filter:
  assumes "applications_well_formed db" and "map Some ids = vs"
  shows "find_docs L (applications db) [Has ''job_id'' (In_list ids)]
           = filter (\<lambda>a. map_of a ''job_id'' \<in> set vs) (applications db)"
proof -
  have "matches L [Has ''job_id'' (In_list ids)] a = (map_of a ''job_id'' \<in> set vs)"
    if "a \<in> set (applications db)" for a
  proof -
    from that assms(1) have "str_valued a ''job_id''"
      by (simp add: applications_well_formed_def list_all_iff)
    then have "list_ex (eq_match (map_of a ''job_id'')) ids = (map_of a ''job_id'' \<in> Some ` set ids)"
      by (auto simp: list_ex_iff eq_match_str_valued)
    with assms(2) show ?thesis by (auto simp: matches_def)
  qed
  then show ?thesis
    unfolding find_docs_def by (auto intro!: filter_cong)
qed

lemma new_job_well_formed:
  "str_valued (prepare_for_mongo L (Job_dict jd eid nid now)) ''id''"
  "str_valued (prepare_for_mongo L (Job_dict jd eid nid now)) ''employer_id''"
  "str_valued (prepare_for_mongo L (Job_dict jd eid nid now)) ''status''"
  by (simp_all add: str_valued_def map_of_prepare_for_mongo Job_dict_def)

lemma new_application_well_formed:
  "str_valued (prepare_for_mongo L (Application_dict ad aid nid now)) ''job_id''"
  by (simp add: str_valued_def map_of_prepare_for_mongo Application_dict_fields)

lemma reachable_well_formed:
  assumes "reachable L db"
  shows "jobs_well_formed db \<and> applications_well_formed db"
  using assms
proof (induction rule: reachable.induct)
  case reachable_empty
  then show ?case
    by (simp add: jobs_well_formed_def applications_well_formed_def empty_store_def)
next
  case (reachable_step db req)
  from step_jobs [of L db req] reachable_step.IH
  have "jobs_well_formed (snd (step L db req))"
    by (auto simp: jobs_well_formed_def new_job_well_formed)
  moreover from step_applications [of L db req] reachable_step.IH
  have "applications_well_formed (snd (step L db req))"
    by (auto simp: applications_well_formed_def new_application_well_formed)
  ultimately show ?case by simp
qed

text \<open>
  Claim C6. For every dashboard-stats request with user type \<^verbatim>\<open>employer\<close>, on a store whose
  job and application documents are well formed (as they are in every store the surface
  produces, by \<open>reachable_well_formed\<close>): the answer counts the jobs of the employer, the
  active ones among them, and, as total applications, the applications whose job id is the
  id of one of the jobs of the employer. For an employer none of whose jobs is stored, on
  any store, the answer is zero jobs, zero active jobs and zero applications.
\<close>

theorem employer_dashboard_counts:
  "(jobs_well_formed db \<and> applications_well_formed db \<longrightarrow>
      get_dashboard_stats L db user_id ''employer'' =
        Inr (EmployerStats
               (length (filter (\<lambda>j. map_of j ''employer_id'' = Some (PStr user_id)) (jobs db)))
               (length (filter (\<lambda>j. map_of j ''status'' = Some (PStr ''active''))
                          (filter (\<lambda>j. map_of j ''employer_id'' = Some (PStr user_id))
                             (jobs db))))
               (length (filter
                          (\<lambda>a. map_of a ''job_id'' \<in>
                                 set (map (\<lambda>j. map_of j ''id'')
                                        (filter (\<lambda>j. map_of j ''employer_id'' = Some (PStr user_id))
                                           (jobs db))))
                          (applications db)))))
   \<and> (\<not> list_ex (\<lambda>j. eq_match (map_of j ''employer_id'') (PStr user_id)) (jobs db) \<longrightarrow>
        get_dashboard_stats L db user_id ''employer'' = Inr (EmployerStats 0 0 0))"
proof (intro conjI impI)
  assume wf: "jobs_well_formed db \<and> applications_well_formed db"
  define ej where "ej = filter (\<lambda>j. map_of j ''employer_id'' = Some (PStr user_id)) (jobs db)"
  define n where
    "n = length (filter (\<lambda>a. map_of a ''job_id'' \<in> set (map (\<lambda>j. map_of j ''id'') ej))
                   (applications db))"
  from wf have "list_all (\<lambda>j. str_valued j ''id'') ej"
    by (auto simp: jobs_well_formed_def list_all_iff ej_def)
  from collect_subscript [OF this] obtain ids
    where ids: "collect (map (\<lambda>j. subscript j ''id'') ej) = Inr ids"
      "map Some ids = map (\<lambda>j. map_of j ''id'') ej" by blast
  from ids(2) have empty: "ids = [] \<longleftrightarrow> ej = []"
    by (metis map_is_Nil_conv)
  have found: "find_docs L (jobs db) [Has ''employer_id'' (Equals (PStr user_id))] = ej"
    "find_docs L (jobs db)
       [Has ''employer_id'' (Equals (PStr user_id)), Has ''status'' (Equals (PStr ''active''))]
     = filter (\<lambda>j. map_of j ''status'' = Some (PStr ''active'')) ej"
    using wf by (simp_all add: employer_jobs_filter ej_def)
  have apps: "length (find_docs L (applications db) [Has ''job_id'' (In_list ids)]) = n"
    using applications_in_filter [OF _ ids(2)] wf by (simp add: n_def)
  have n0: "n = 0" if "ids = []"
  proof -
    from that empty have "ej = []" by simp
    then show ?thesis by (simp add: n_def)
  qed
  have "get_dashboard_stats L db user_id ''employer'' =
        Inr (EmployerStats (length ej)
               (length (filter (\<lambda>j. map_of j ''status'' = Some (PStr ''active'')) ej)) n)"
    by (simp add: get_dashboard_stats_def Let_def count_documents_def found ids(1) apps n0)
  then show "get_dashboard_stats L db user_id ''employer'' =
        Inr (EmployerStats
               (length (filter (\<lambda>j. map_of j ''employer_id'' = Some (PStr user_id)) (jobs db)))
               (length (filter (\<lambda>j. map_of j ''status'' = Some (PStr ''active''))
                          (filter (\<lambda>j. map_of j ''employer_id'' = Some (PStr user_id))
                             (jobs db))))
               (length (filter
                          (\<lambda>a. map_of a ''job_id'' \<in>
                                 set (map (\<lambda>j. map_of j ''id'')
                                        (filter (\<lambda>j. map_of j ''employer_id'' = Some (PStr user_id))
                                           (jobs db))))
                          (applications db))))"
    unfolding n_def ej_def .
next
  assume "\<not> list_ex (\<lambda>j. eq_match (map_of j ''employer_id'') (PStr user_id)) (jobs db)"
  then have none: "find_docs L (jobs db) [Has ''employer_id'' (Equals (PStr user_id))] = []"
    by (auto simp: find_docs_def matches_def list_ex_iff filter_empty_conv)
  then have "find_docs L (jobs db)
           [Has ''employer_id'' (Equals (PStr user_id)),
            Has ''status'' (Equals (PStr ''active''))] = []"
    by (auto simp: find_docs_def matches_def filter_empty_conv)
  with none show "get_dashboard_stats L db user_id ''employer'' = Inr (EmployerStats 0 0 0)"
    by (simp add: get_dashboard_stats_def Let_def count_documents_def)
qed

text \<open>
  Employer \<open>e1\<close> has posted the sample job, for which one application is stored; employer
  \<open>e2\<close> has posted nothing.
\<close>

theorem employer_dashboard_counts_witness:
  "get_dashboard_stats sample_libs
     (store_job_and_user\<lparr>applications := [sample_application_doc]\<rparr>) ''e1'' ''employer''
     = Inr (EmployerStats 1 1 1)
   \<and> get_dashboard_stats sample_libs
     (store_job_and_user\<lparr>applications := [sample_application_doc]\<rparr>) ''e2'' ''employer''
     = Inr (EmployerStats 0 0 0)"
proof -
  let ?db = "store_job_and_user\<lparr>applications := [sample_application_doc]\<rparr>"
  have wf: "jobs_well_formed ?db \<and> applications_well_formed ?db"
    by (simp add: jobs_well_formed_def applications_well_formed_def str_valued_def
        store_job_and_user_eq sample_job_doc_eq sample_application_doc_eq)
  have none: "\<not> list_ex (\<lambda>j. eq_match (map_of j ''employer_id'') (PStr ''e2'')) (jobs ?db)"
    by (simp add: store_job_and_user_eq sample_job_doc_eq)
  from employer_dashboard_counts [of ?db sample_libs "''e1''"] wf
  have first: "get_dashboard_stats sample_libs ?db ''e1'' ''employer'' = Inr (EmployerStats 1 1 1)"
    by (simp add: store_job_and_user_eq sample_job_doc_eq sample_application_doc_eq)
  from employer_dashboard_counts [of ?db sample_libs "''e2''"] none
  have second: "get_dashboard_stats sample_libs ?db ''e2'' ''employer'' = Inr (EmployerStats 0 0 0)"
    by simp
  from first second show ?thesis by simp
qed

section \<open>The sample stores are reachable\<close>

lemma reachable_update_user_profile:
  assumes "reachable L db"
  shows "reachable L (snd (update_user_profile L db user_id profile_data))"
proof -
  from assms have "reachable L (snd (step L db (UpdateProfile user_id profile_data)))"
    by (rule reachable_step)
  then show ?thesis by (simp add: case_prod_beta)
qed

lemma reachable_samples:
  "reachable sample_libs store_array_email"
  "reachable sample_libs store_list_name"
  "reachable sample_libs store_null_name"
  "reachable sample_libs store_with_resume"
  unfolding store_array_email_def store_list_name_def store_null_name_def store_with_resume_def
  by (rule reachable_update_user_profile [OF reachable_store_job_and_user])+

section \<open>Registration\<close>

lemma eq_match_holds_str: "eq_match (map_of d k) (PStr s) = holds_str d k s"
proof (cases "map_of d k")
  case None
  then show ?thesis by (simp add: holds_str_def)
next
  case (Some v)
  then show ?thesis by (cases v) (auto simp: holds_str_def)
qed

lemma find_one_eq_find: "find_one L coll q = List.find (matches L q) coll"
  by (induction coll) (simp_all add: find_one_def find_docs_def)

lemma find_one_find_first:
  "find_one L coll [Has k (Equals (PStr s))] = find_first coll k s"
proof -
  have "matches L [Has k (Equals (PStr s))] = (\<lambda>d. holds_str d k s)"
    by (simp add: fun_eq_iff matches_single_eq eq_match_holds_str)
  then show ?thesis
    by (simp add: find_one_eq_find find_first_def)
qed

text \<open>
  Claim C3 (as amended). For every register request: when the email field of a stored
  user is the given email, or a list that holds it, the answer is the exception with
  status 400 and the store is unchanged; otherwise the users collection gains exactly one
  document, with the generated id, the creation time as ISO text and the submitted fields,
  and the answer is the public view of the new user. The answer holds no password: it is
  the same whatever password is submitted.
\<close>

theorem register_user_conflict_or_created:
  "(list_ex (\<lambda>u. holds_str u ''email'' (uc_email user_data)) (users db) \<longrightarrow>
      register_user L db user_data new_id now =
        (Inl (HTTPException 400 ''Email already registered''), db)
      \<and> status_code (HTTPException 400 ''Email already registered'') = 400)
   \<and> (\<not> list_ex (\<lambda>u. holds_str u ''email'' (uc_email user_data)) (users db) \<longrightarrow>
      (let stored = prepare_for_mongo L (User_dict user_data new_id now)
       in register_user L db user_data new_id now =
            (Inr \<lparr>ur_id = new_id, ur_email = uc_email user_data, ur_name = uc_name user_data,
                  ur_user_type = uc_user_type user_data, ur_profile_image = None,
                  ur_title = None, ur_location = None, ur_bio = None, ur_company = None,
                  ur_skills = [], ur_experience = None, ur_education = None,
                  ur_created_at = now\<rparr>,
             db\<lparr>users := users db @ [stored]\<rparr>)
          \<and> map_of stored ''id'' = Some (PStr new_id)
          \<and> map_of stored ''created_at'' = Some (PStr (isoformat L now))
          \<and> map_of stored ''email'' = Some (PStr (uc_email user_data))
          \<and> map_of stored ''password'' = Some (PStr (uc_password user_data))
          \<and> map_of stored ''name'' = Some (PStr (uc_name user_data))
          \<and> map_of stored ''user_type'' = Some (PStr (uc_user_type user_data))))
   \<and> fst (register_user L db (user_data\<lparr>uc_password := other_password\<rparr>) new_id now)
       = fst (register_user L db user_data new_id now)"
proof (intro conjI impI)
  assume "list_ex (\<lambda>u. holds_str u ''email'' (uc_email user_data)) (users db)"
  then have "find_one L (users db) [Has ''email'' (Equals (PStr (uc_email user_data)))] \<noteq> None"
    by (simp add: find_one_None list_ex_iff matches_single_eq eq_match_holds_str)
  then show "register_user L db user_data new_id now =
        (Inl (HTTPException 400 ''Email already registered''), db)"
    by (auto simp: register_user_def)
next
  assume "\<not> list_ex (\<lambda>u. holds_str u ''email'' (uc_email user_data)) (users db)"
  then have "find_one L (users db) [Has ''email'' (Equals (PStr (uc_email user_data)))] = None"
    by (simp add: find_one_None list_ex_iff matches_single_eq eq_match_holds_str)
  then have "register_user L db user_data new_id now =
      (Inr \<lparr>ur_id = new_id, ur_email = uc_email user_data, ur_name = uc_name user_data,
               ur_user_type = uc_user_type user_data, ur_profile_image = None,
               ur_title = None, ur_location = None, ur_bio = None, ur_company = None,
               ur_skills = [], ur_experience = None, ur_education = None,
               ur_created_at = now\<rparr>,
       db\<lparr>users := users db @ [prepare_for_mongo L (User_dict user_data new_id now)]\<rparr>)"
    by (simp add: register_user_def Let_def UserResponse_validate_User_dict validated_def
        insert_one_def)
  then show "let stored = prepare_for_mongo L (User_dict user_data new_id now)
       in register_user L db user_data new_id now =
            (Inr \<lparr>ur_id = new_id, ur_email = uc_email user_data, ur_name = uc_name user_data,
                  ur_user_type = uc_user_type user_data, ur_profile_image = None,
                  ur_title = None, ur_location = None, ur_bio = None, ur_company = None,
                  ur_skills = [], ur_experience = None, ur_education = None,
                  ur_created_at = now\<rparr>,
             db\<lparr>users := users db @ [stored]\<rparr>)
          \<and> map_of stored ''id'' = Some (PStr new_id)
          \<and> map_of stored ''created_at'' = Some (PStr (isoformat L now))
          \<and> map_of stored ''email'' = Some (PStr (uc_email user_data))
          \<and> map_of stored ''password'' = Some (PStr (uc_password user_data))
          \<and> map_of stored ''name'' = Some (PStr (uc_name user_data))
          \<and> map_of stored ''user_type'' = Some (PStr (uc_user_type user_data))"
    by (simp add: Let_def map_of_prepare_for_mongo User_dict_def)
next
  show "fst (register_user L db (user_data\<lparr>uc_password := other_password\<rparr>) new_id now)
       = fst (register_user L db user_data new_id now)"
    by (simp add: register_user_def Let_def UserResponse_validate_User_dict
        split: option.splits)
qed simp

lemma store_array_email_eq:
  "store_array_email =
     \<lparr>users = [AList.update ''email'' (PList [''bob@example.com'']) sample_user_doc],
      jobs = [sample_job_doc], applications = []\<rparr>"
  by (simp add: store_array_email_def store_job_and_user_eq update_user_profile_def find_one_def
      find_docs_def matches_def set_fields_def sample_user_doc_eq)

text \<open>
  The first registration of an email on the empty store succeeds and the second one, on
  the store it left, is refused.
\<close>

theorem register_user_conflict_or_created_witness:
  "register_user sample_libs empty_store sample_user ''u1'' sample_time =
     (Inr \<lparr>ur_id = ''u1'', ur_email = ''ann@example.com'', ur_name = ''Ann'',
        ur_user_type = ''job_seeker'', ur_profile_image = None, ur_title = None,
        ur_location = None, ur_bio = None, ur_company = None, ur_skills = [],
        ur_experience = None, ur_education = None, ur_created_at = sample_time\<rparr>,
      \<lparr>users = [sample_user_doc], jobs = [], applications = []\<rparr>)
   \<and> register_user sample_libs \<lparr>users = [sample_user_doc], jobs = [], applications = []\<rparr>
        sample_user ''u2'' sample_time =
     (Inl (HTTPException 400 ''Email already registered''),
      \<lparr>users = [sample_user_doc], jobs = [], applications = []\<rparr>)"
proof -
  have no: "\<not> list_ex (\<lambda>u. holds_str u ''email'' (uc_email sample_user)) (users empty_store)"
    by (simp add: empty_store_def)
  have yes: "list_ex (\<lambda>u. holds_str u ''email'' (uc_email sample_user))
               (users \<lparr>users = [sample_user_doc], jobs = [], applications = []\<rparr>)"
    by (simp add: holds_str_def sample_user_doc_eq sample_user_def)
  from register_user_conflict_or_created
         [of sample_user empty_store sample_libs "''u1''" sample_time] no
  have first: "register_user sample_libs empty_store sample_user ''u1'' sample_time =
     (Inr \<lparr>ur_id = ''u1'', ur_email = ''ann@example.com'', ur_name = ''Ann'',
        ur_user_type = ''job_seeker'', ur_profile_image = None, ur_title = None,
        ur_location = None, ur_bio = None, ur_company = None, ur_skills = [],
        ur_experience = None, ur_education = None, ur_created_at = sample_time\<rparr>,
      \<lparr>users = [sample_user_doc], jobs = [], applications = []\<rparr>)"
    by (simp add: Let_def sample_user_doc_def empty_store_def sample_user_def)
  from register_user_conflict_or_created
         [of sample_user "\<lparr>users = [sample_user_doc], jobs = [], applications = []\<rparr>"
             sample_libs "''u2''" sample_time] yes
  have second: "register_user sample_libs \<lparr>users = [sample_user_doc], jobs = [], applications = []\<rparr>
        sample_user ''u2'' sample_time =
     (Inl (HTTPException 400 ''Email already registered''),
      \<lparr>users = [sample_user_doc], jobs = [], applications = []\<rparr>)"
    by simp
  from first second show ?thesis by simp
qed

text \<open>
  Claim C3 as stated fails after a profile update that stores a list as the email of a
  user, on a store that three requests produce: no stored user has the email
  \<^verbatim>\<open>bob@example.com\<close>, and its registration is refused.
\<close>

theorem register_user_array_email_counterexample:
  "reachable sample_libs store_array_email
   \<and> \<not> list_ex (\<lambda>u. map_of u ''email'' = Some (PStr ''bob@example.com''))
       (users store_array_email)
   \<and> register_user sample_libs store_array_email bob_user ''u2'' sample_time =
       (Inl (HTTPException 400 ''Email already registered''), store_array_email)"
proof -
  have "\<not> list_ex (\<lambda>u. map_of u ''email'' = Some (PStr ''bob@example.com''))
       (users store_array_email)"
    by (simp add: store_array_email_eq sample_user_doc_eq)
  moreover have "find_one sample_libs (users store_array_email)
      [Has ''email'' (Equals (PStr (uc_email bob_user)))]
      = Some (AList.update ''email'' (PList [''bob@example.com'']) sample_user_doc)"
    by (simp add: store_array_email_eq find_one_single matches_def sample_user_doc_eq
        bob_user_def)
  ultimately show ?thesis
    by (simp add: register_user_def reachable_samples)
qed

section \<open>The search and location filters of list-jobs\<close>

lemma query_valid_append: "query_valid L (q1 @ q2) = (query_valid L q1 \<and> query_valid L q2)"
  by (simp add: query_valid_def)








section \<open>Stored resumes and the responses\<close>















section \<open>Applying for a job: the claims\<close>

lemma new_application_keyed:
  "str_valued (prepare_for_mongo L (Application_dict ad aid nid now)) ''job_id''"
  "str_valued (prepare_for_mongo L (Application_dict ad aid nid now)) ''applicant_id''"
  by (simp_all add: str_valued_def map_of_prepare_for_mongo Application_dict_fields)

lemma reachable_applications_keyed:
  assumes "reachable L db"
  shows "applications_keyed db"
  using assms
proof (induction rule: reachable.induct)
  case reachable_empty
  then show ?case by (simp add: applications_keyed_def empty_store_def)
next
  case (reachable_step db req)
  from step_applications [of L db req] reachable_step.IH show ?case
    by (auto simp: applications_keyed_def new_application_keyed)
qed

lemma already_applied_iff:
  assumes "applications_keyed db"
  shows "already_applied db job_id applicant_id
           = list_ex (\<lambda>a. map_of a ''job_id'' = Some (PStr job_id)
                         \<and> map_of a ''applicant_id'' = Some (PStr applicant_id))
               (applications db)"
  using assms
  by (auto simp: already_applied_def applications_keyed_def list_ex_iff list_all_iff
      eq_match_str_valued)

lemma apply_for_job_first:
  assumes "applications_keyed db"
    and "\<not> list_ex (\<lambda>a. map_of a ''job_id'' = Some (PStr (ac_job_id ad))
                        \<and> map_of a ''applicant_id'' = Some (PStr aid)) (applications db)"
  shows "apply_for_job L db ad aid nid now =
           (enriched_answer L (find_first (jobs db) ''id'' (ac_job_id ad))
              (find_first (users db) ''id'' aid) (Application_dict ad aid nid now),
            db\<lparr>applications :=
                 applications db @ [prepare_for_mongo L (Application_dict ad aid nid now)]\<rparr>)"
  using assms
  by (simp add: apply_for_job_unfold already_applied_iff find_one_find_first)

lemma store_list_name_eq:
  "store_list_name =
     \<lparr>users = [AList.update ''name'' (PList [''A'']) sample_user_doc], jobs = [sample_job_doc],
      applications = []\<rparr>"
  by (simp add: store_list_name_def store_job_and_user_eq update_user_profile_def find_one_def
      find_docs_def matches_def set_fields_def sample_user_doc_eq)

lemma find_first_single:
  "find_first [d] k s = (if holds_str d k s then Some d else None)"
  by (simp add: find_first_def)

text \<open>
  Claim C1 (as amended). For every apply-for-job request, on a store whose applications
  carry strings as job id and applicant id (every store that the surface produces, by
  \<open>reachable_applications_keyed\<close>): when an application with the job id and the applicant
  id is stored, the answer is the exception with status 400 and the store is unchanged.
  Otherwise the applications collection gains exactly one document, with status
  \<^verbatim>\<open>pending\<close>. Then, when each lookup misses or finds a string or \<^verbatim>\<open>None\<close> in the field
  it reads (title and company of the job, name of the applicant), the answer is the
  response with status \<^verbatim>\<open>pending\<close> in which an enrichment field is present iff its lookup
  found a document that holds a string there; a lookup that misses, and a field that holds
  \<^verbatim>\<open>None\<close>, leave the enrichment field out and raise nothing. When a lookup finds a document
  without the field, or with a value of another kind in it, the answer is an exception
  with status 500, after the document was stored.
\<close>

theorem apply_for_job_conflict_or_created:
  assumes "applications_keyed db"
  shows
  "(list_ex (\<lambda>a. map_of a ''job_id'' = Some (PStr (ac_job_id ad))
                 \<and> map_of a ''applicant_id'' = Some (PStr aid)) (applications db) \<longrightarrow>
      apply_for_job L db ad aid nid now =
        (Inl (HTTPException 400 ''Already applied for this job''), db)
      \<and> status_code (HTTPException 400 ''Already applied for this job'') = 400)
   \<and> (\<not> list_ex (\<lambda>a. map_of a ''job_id'' = Some (PStr (ac_job_id ad))
                     \<and> map_of a ''applicant_id'' = Some (PStr aid)) (applications db) \<longrightarrow>
      (let job = find_first (jobs db) ''id'' (ac_job_id ad);
           applicant = find_first (users db) ''id'' aid;
           stored = prepare_for_mongo L (Application_dict ad aid nid now);
           res = apply_for_job L db ad aid nid now
       in snd res = db\<lparr>applications := applications db @ [stored]\<rparr>
          \<and> map_of stored ''status'' = Some (PStr ''pending'')
          \<and> map_of stored ''job_id'' = Some (PStr (ac_job_id ad))
          \<and> map_of stored ''applicant_id'' = Some (PStr aid)
          \<and> (enrichable job ''title'' \<and> enrichable job ''company''
               \<and> enrichable applicant ''name'' \<longrightarrow>
             fst res =
               Inr \<lparr>ar_id = nid, ar_job_id = ac_job_id ad, ar_applicant_id = aid,
                    ar_cover_letter = ac_cover_letter ad, ar_status = ''pending'',
                    ar_applied_at = now, ar_job_title = found_str job ''title'',
                    ar_company = found_str job ''company'',
                    ar_applicant_name = found_str applicant ''name''\<rparr>)
          \<and> (\<not> (enrichable job ''title'' \<and> enrichable job ''company''
                  \<and> enrichable applicant ''name'') \<longrightarrow>
             (\<exists>e. fst res = Inl e \<and> status_code e = 500))))"
proof (intro conjI impI)
  assume "list_ex (\<lambda>a. map_of a ''job_id'' = Some (PStr (ac_job_id ad))
                 \<and> map_of a ''applicant_id'' = Some (PStr aid)) (applications db)"
  then show "apply_for_job L db ad aid nid now =
        (Inl (HTTPException 400 ''Already applied for this job''), db)"
    using assms by (simp add: apply_for_job_unfold already_applied_iff)
next
  assume n: "\<not> list_ex (\<lambda>a. map_of a ''job_id'' = Some (PStr (ac_job_id ad))
                     \<and> map_of a ''applicant_id'' = Some (PStr aid)) (applications db)"
  let ?job = "find_first (jobs db) ''id'' (ac_job_id ad)"
  let ?applicant = "find_first (users db) ''id'' aid"
  note c = enriched_answer_cases [of L ?job ?applicant ad aid nid now]
  from c have ok: "enrichable ?job ''title'' \<and> enrichable ?job ''company''
       \<and> enrichable ?applicant ''name'' \<Longrightarrow>
     enriched_answer L ?job ?applicant (Application_dict ad aid nid now) =
       Inr \<lparr>ar_id = nid, ar_job_id = ac_job_id ad, ar_applicant_id = aid,
            ar_cover_letter = ac_cover_letter ad, ar_status = ''pending'',
            ar_applied_at = now, ar_job_title = found_str ?job ''title'',
            ar_company = found_str ?job ''company'',
            ar_applicant_name = found_str ?applicant ''name''\<rparr>"
    by (simp add: enriched_answer_ok)
  from c have bad: "\<not> (enrichable ?job ''title'' \<and> enrichable ?job ''company''
       \<and> enrichable ?applicant ''name'') \<Longrightarrow>
     \<exists>e. enriched_answer L ?job ?applicant (Application_dict ad aid nid now) = Inl e
          \<and> status_code e = 500"
    by blast
  show "let job = ?job; applicant = ?applicant;
           stored = prepare_for_mongo L (Application_dict ad aid nid now);
           res = apply_for_job L db ad aid nid now
       in snd res = db\<lparr>applications := applications db @ [stored]\<rparr>
          \<and> map_of stored ''status'' = Some (PStr ''pending'')
          \<and> map_of stored ''job_id'' = Some (PStr (ac_job_id ad))
          \<and> map_of stored ''applicant_id'' = Some (PStr aid)
          \<and> (enrichable job ''title'' \<and> enrichable job ''company''
               \<and> enrichable applicant ''name'' \<longrightarrow>
             fst res =
               Inr \<lparr>ar_id = nid, ar_job_id = ac_job_id ad, ar_applicant_id = aid,
                    ar_cover_letter = ac_cover_letter ad, ar_status = ''pending'',
                    ar_applied_at = now, ar_job_title = found_str job ''title'',
                    ar_company = found_str job ''company'',
                    ar_applicant_name = found_str applicant ''name''\<rparr>)
          \<and> (\<not> (enrichable job ''title'' \<and> enrichable job ''company''
                  \<and> enrichable applicant ''name'') \<longrightarrow>
             (\<exists>e. fst res = Inl e \<and> status_code e = 500))"
    unfolding Let_def
    using ok bad
    by (simp add: apply_for_job_first [OF assms n] map_of_prepare_for_mongo
        Application_dict_fields)
qed simp

text \<open>
  On the store with the sample job and the sample user, the first application is answered
  with the three enrichment fields; the second one is refused and stores nothing. After the
  profile update that stores a list as the name of the applicant, the application is
  stored and answered with an exception.
\<close>

theorem apply_for_job_conflict_or_created_witness:
  "apply_for_job sample_libs store_job_and_user sample_application ''u1'' ''a1'' sample_time =
     (Inr \<lparr>ar_id = ''a1'', ar_job_id = ''j1'', ar_applicant_id = ''u1'',
           ar_cover_letter = Some ''Hello'', ar_status = ''pending'',
           ar_applied_at = sample_time, ar_job_title = Some ''Software Engineer'',
           ar_company = Some ''Acme'', ar_applicant_name = Some ''Ann''\<rparr>,
      store_job_and_user\<lparr>applications := [sample_application_doc]\<rparr>)
   \<and> apply_for_job sample_libs (store_job_and_user\<lparr>applications := [sample_application_doc]\<rparr>)
        sample_application ''u1'' ''a2'' sample_time =
     (Inl (HTTPException 400 ''Already applied for this job''),
      store_job_and_user\<lparr>applications := [sample_application_doc]\<rparr>)
   \<and> apply_for_job sample_libs store_list_name sample_application ''u1'' ''a1'' sample_time =
     (Inl ValidationError, store_list_name\<lparr>applications := [sample_application_doc]\<rparr>)"
proof -
  let ?db2 = "store_job_and_user\<lparr>applications := [sample_application_doc]\<rparr>"
  have keyed: "applications_keyed store_job_and_user" "applications_keyed ?db2"
    "applications_keyed store_list_name"
    by (simp_all add: applications_keyed_def str_valued_def store_job_and_user_eq
        store_list_name_eq sample_application_doc_eq)
  have no: "\<not> list_ex (\<lambda>a. map_of a ''job_id'' = Some (PStr (ac_job_id sample_application))
                         \<and> map_of a ''applicant_id'' = Some (PStr ''u1''))
               (applications store_job_and_user)"
    "\<not> list_ex (\<lambda>a. map_of a ''job_id'' = Some (PStr (ac_job_id sample_application))
                         \<and> map_of a ''applicant_id'' = Some (PStr ''u1''))
               (applications store_list_name)"
    by (simp_all add: store_job_and_user_eq store_list_name_eq)
  have yes: "list_ex (\<lambda>a. map_of a ''job_id'' = Some (PStr (ac_job_id sample_application))
                         \<and> map_of a ''applicant_id'' = Some (PStr ''u1''))
               (applications ?db2)"
    by (simp add: sample_application_doc_eq sample_application_def)
  have job: "find_first (jobs store_job_and_user) ''id'' (ac_job_id sample_application)
               = Some sample_job_doc"
    "find_first (jobs store_list_name) ''id'' (ac_job_id sample_application)
               = Some sample_job_doc"
    by (simp_all add: store_job_and_user_eq store_list_name_eq find_first_single holds_str_def
        sample_job_doc_eq sample_application_def)
  have applicant: "find_first (users store_job_and_user) ''id'' ''u1'' = Some sample_user_doc"
    "find_first (users store_list_name) ''id'' ''u1''
       = Some (AList.update ''name'' (PList [''A'']) sample_user_doc)"
    by (simp_all add: store_job_and_user_eq store_list_name_eq find_first_single holds_str_def
        sample_user_doc_eq)
  have e: "enrichable (Some sample_job_doc) ''title''" "enrichable (Some sample_job_doc) ''company''"
    "enrichable (Some sample_user_doc) ''name''"
    "\<not> enrichable (Some (AList.update ''name'' (PList [''A'']) sample_user_doc)) ''name''"
    by (simp_all add: enrichable_def sample_job_doc_eq sample_user_doc_eq)
  have f: "found_str (Some sample_job_doc) ''title'' = Some ''Software Engineer''"
    "found_str (Some sample_job_doc) ''company'' = Some ''Acme''"
    "found_str (Some sample_user_doc) ''name'' = Some ''Ann''"
    by (simp_all add: found_str_def sample_job_doc_eq sample_user_doc_eq)
  from apply_for_job_conflict_or_created
         [OF keyed(1), of sample_application "''u1''" sample_libs "''a1''" sample_time]
       no(1) job(1) applicant(1) e f
  have first: "apply_for_job sample_libs store_job_and_user sample_application ''u1'' ''a1'' sample_time =
     (Inr \<lparr>ar_id = ''a1'', ar_job_id = ''j1'', ar_applicant_id = ''u1'',
           ar_cover_letter = Some ''Hello'', ar_status = ''pending'',
           ar_applied_at = sample_time, ar_job_title = Some ''Software Engineer'',
           ar_company = Some ''Acme'', ar_applicant_name = Some ''Ann''\<rparr>,
      store_job_and_user\<lparr>applications := [sample_application_doc]\<rparr>)"
    by (simp add: Let_def prod_eq_iff sample_application_def sample_application_doc_def
        store_job_and_user_eq)
  from apply_for_job_conflict_or_created
         [OF keyed(2), of sample_application "''u1''" sample_libs "''a2''" sample_time] yes
  have second: "apply_for_job sample_libs ?db2 sample_application ''u1'' ''a2'' sample_time =
     (Inl (HTTPException 400 ''Already applied for this job''), ?db2)"
    by simp
  have err: "enriched_answer sample_libs (Some sample_job_doc)
               (Some (AList.update ''name'' (PList [''A'']) sample_user_doc))
               (Application_dict sample_application ''u1'' ''a1'' sample_time)
             = Inl ValidationError"
    by (simp add: enriched_answer_def enrich_job_def enrich_applicant_def subscript_def
        sample_job_doc_eq sample_user_doc_eq Application_dict_def
        ApplicationResponse_validate_def str_field_def opt_str_field_def datetime_field_def
        validated_def sample_application_def)
  from apply_for_job_conflict_or_created
         [OF keyed(3), of sample_application "''u1''" sample_libs "''a1''" sample_time]
       no(2) job(2) applicant(2) e
  have "snd (apply_for_job sample_libs store_list_name sample_application ''u1'' ''a1'' sample_time)
          = store_list_name\<lparr>applications := [sample_application_doc]\<rparr>"
    by (simp add: Let_def sample_application_doc_def store_list_name_eq)
  moreover have "fst (apply_for_job sample_libs store_list_name sample_application ''u1'' ''a1''
                        sample_time) = Inl ValidationError"
    using err job(2) applicant(2)
    by (simp add: apply_for_job_first [OF keyed(3) no(2)])
  ultimately have third: "apply_for_job sample_libs store_list_name sample_application ''u1'' ''a1''
      sample_time = (Inl ValidationError, store_list_name\<lparr>applications := [sample_application_doc]\<rparr>)"
    by (simp add: prod_eq_iff)
  from first second third show ?thesis by simp
qed

text \<open>
  Claim C1 as stated fails after the profile update that sets the name of the applicant to
  \<^verbatim>\<open>null\<close>: the lookup of the applicant succeeds and the applicant name is left out.
\<close>

theorem apply_for_job_null_name_counterexample:
  "reachable sample_libs store_null_name
   \<and> find_one sample_libs (users store_null_name) [Has ''id'' (Equals (PStr ''u1''))]
     = Some (AList.update ''name'' PNone sample_user_doc)
   \<and> fst (apply_for_job sample_libs store_null_name sample_application ''u1'' ''a1'' sample_time) =
       Inr \<lparr>ar_id = ''a1'', ar_job_id = ''j1'', ar_applicant_id = ''u1'',
            ar_cover_letter = Some ''Hello'', ar_status = ''pending'',
            ar_applied_at = sample_time, ar_job_title = Some ''Software Engineer'',
            ar_company = Some ''Acme'', ar_applicant_name = None\<rparr>"
proof -
  have no: "\<not> already_applied store_null_name (ac_job_id sample_application) ''u1''"
    by (simp add: already_applied_def store_null_name_eq)
  have job: "find_one sample_libs (jobs store_null_name)
               [Has ''id'' (Equals (PStr (ac_job_id sample_application)))] = Some sample_job_doc"
    by (simp add: store_null_name_eq find_one_single matches_def sample_job_doc_eq
        sample_application_def)
  have applicant: "find_one sample_libs (users store_null_name)
               [Has ''id'' (Equals (PStr ''u1''))] = Some (AList.update ''name'' PNone sample_user_doc)"
    by (simp add: store_null_name_eq find_one_single matches_def sample_user_doc_eq)
  have e: "enrichable (Some sample_job_doc) ''title''" "enrichable (Some sample_job_doc) ''company''"
    "enrichable (Some (AList.update ''name'' PNone sample_user_doc)) ''name''"
    by (simp_all add: enrichable_def sample_job_doc_eq sample_user_doc_eq)
  have f: "found_str (Some sample_job_doc) ''title'' = Some ''Software Engineer''"
    "found_str (Some sample_job_doc) ''company'' = Some ''Acme''"
    "found_str (Some (AList.update ''name'' PNone sample_user_doc)) ''name'' = None"
    by (simp_all add: found_str_def sample_job_doc_eq sample_user_doc_eq)
  have "enriched_answer sample_libs (Some sample_job_doc)
          (Some (AList.update ''name'' PNone sample_user_doc))
          (Application_dict sample_application ''u1'' ''a1'' sample_time) =
       Inr \<lparr>ar_id = ''a1'', ar_job_id = ''j1'', ar_applicant_id = ''u1'',
            ar_cover_letter = Some ''Hello'', ar_status = ''pending'',
            ar_applied_at = sample_time, ar_job_title = Some ''Software Engineer'',
            ar_company = Some ''Acme'', ar_applicant_name = None\<rparr>"
    using enriched_answer_ok [OF e, of sample_libs sample_application "''u1''" "''a1''" sample_time] f
    by (simp add: sample_application_def)
  with no job applicant show ?thesis
    by (simp add: apply_for_job_unfold reachable_samples)
qed

text \<open>
  Claim C10 (as amended). Apply-for-job checks neither the existence nor the status of the
  job. For a first application, on a store whose applications carry strings as job id and
  applicant id, and when the applicant lookup misses or finds a string or \<^verbatim>\<open>None\<close> as name:
  if the job id references no stored job, the application is stored and answered with a
  response without job title and company; if it references a stored job whose title and
  company are strings (as in every job that create-job stores), whatever the status of the
  job, the application is stored and answered with a response that carries the title and
  the company of the job.
\<close>

theorem apply_for_job_checks_no_job:
  assumes "applications_keyed db"
    and "\<not> list_ex (\<lambda>a. map_of a ''job_id'' = Some (PStr (ac_job_id ad))
                        \<and> map_of a ''applicant_id'' = Some (PStr aid)) (applications db)"
    and "enrichable (find_first (users db) ''id'' aid) ''name''"
  shows
    "(find_first (jobs db) ''id'' (ac_job_id ad) = None \<longrightarrow>
        apply_for_job L db ad aid nid now =
          (Inr \<lparr>ar_id = nid, ar_job_id = ac_job_id ad, ar_applicant_id = aid,
                ar_cover_letter = ac_cover_letter ad, ar_status = ''pending'',
                ar_applied_at = now, ar_job_title = None, ar_company = None,
                ar_applicant_name = found_str (find_first (users db) ''id'' aid) ''name''\<rparr>,
           db\<lparr>applications :=
                applications db @ [prepare_for_mongo L (Application_dict ad aid nid now)]\<rparr>))
     \<and> (\<forall>j t c. find_first (jobs db) ''id'' (ac_job_id ad) = Some j
                 \<and> map_of j ''title'' = Some (PStr t) \<and> map_of j ''company'' = Some (PStr c) \<longrightarrow>
        apply_for_job L db ad aid nid now =
          (Inr \<lparr>ar_id = nid, ar_job_id = ac_job_id ad, ar_applicant_id = aid,
                ar_cover_letter = ac_cover_letter ad, ar_status = ''pending'',
                ar_applied_at = now, ar_job_title = Some t, ar_company = Some c,
                ar_applicant_name = found_str (find_first (users db) ''id'' aid) ''name''\<rparr>,
           db\<lparr>applications :=
                applications db @ [prepare_for_mongo L (Application_dict ad aid nid now)]\<rparr>))"
proof (intro conjI allI impI)
  assume j: "find_first (jobs db) ''id'' (ac_job_id ad) = None"
  from enriched_answer_ok [OF enrichable_None enrichable_None assms(3), of L ad aid nid now]
  show "apply_for_job L db ad aid nid now =
          (Inr \<lparr>ar_id = nid, ar_job_id = ac_job_id ad, ar_applicant_id = aid,
                ar_cover_letter = ac_cover_letter ad, ar_status = ''pending'',
                ar_applied_at = now, ar_job_title = None, ar_company = None,
                ar_applicant_name = found_str (find_first (users db) ''id'' aid) ''name''\<rparr>,
           db\<lparr>applications :=
                applications db @ [prepare_for_mongo L (Application_dict ad aid nid now)]\<rparr>)"
    using j by (simp add: apply_for_job_first [OF assms(1,2)] found_str_None)
next
  fix j t c
  assume "find_first (jobs db) ''id'' (ac_job_id ad) = Some j
          \<and> map_of j ''title'' = Some (PStr t) \<and> map_of j ''company'' = Some (PStr c)"
  then have j: "find_first (jobs db) ''id'' (ac_job_id ad) = Some j"
    and t: "map_of j ''title'' = Some (PStr t)" and c: "map_of j ''company'' = Some (PStr c)"
    by simp_all
  from enriched_answer_ok [OF enrichable_str [OF t] enrichable_str [OF c] assms(3),
      of L ad aid nid now]
  show "apply_for_job L db ad aid nid now =
          (Inr \<lparr>ar_id = nid, ar_job_id = ac_job_id ad, ar_applicant_id = aid,
                ar_cover_letter = ac_cover_letter ad, ar_status = ''pending'',
                ar_applied_at = now, ar_job_title = Some t, ar_company = Some c,
                ar_applicant_name = found_str (find_first (users db) ''id'' aid) ''name''\<rparr>,
           db\<lparr>applications :=
                applications db @ [prepare_for_mongo L (Application_dict ad aid nid now)]\<rparr>)"
    using j by (simp add: apply_for_job_first [OF assms(1,2)] found_str_str [OF t]
        found_str_str [OF c])
qed

text \<open>
  An application for a job that is not stored, and one for the closed job: both are stored
  and answered, the second with the title and the company of the closed job.
\<close>

theorem apply_for_job_checks_no_job_witness:
  "apply_for_job sample_libs empty_store sample_application ''u1'' ''a1'' sample_time =
     (Inr \<lparr>ar_id = ''a1'', ar_job_id = ''j1'', ar_applicant_id = ''u1'',
           ar_cover_letter = Some ''Hello'', ar_status = ''pending'',
           ar_applied_at = sample_time, ar_job_title = None, ar_company = None,
           ar_applicant_name = None\<rparr>,
      \<lparr>users = [], jobs = [], applications = [sample_application_doc]\<rparr>)
   \<and> apply_for_job sample_libs store_closed_job sample_application ''u1'' ''a1'' sample_time =
     (Inr \<lparr>ar_id = ''a1'', ar_job_id = ''j1'', ar_applicant_id = ''u1'',
           ar_cover_letter = Some ''Hello'', ar_status = ''pending'',
           ar_applied_at = sample_time, ar_job_title = Some ''Software Engineer'',
           ar_company = Some ''Acme'', ar_applicant_name = None\<rparr>,
      store_closed_job\<lparr>applications := [sample_application_doc]\<rparr>)"
proof -
  have keyed: "applications_keyed empty_store" "applications_keyed store_closed_job"
    by (simp_all add: applications_keyed_def empty_store_def store_closed_job_def)
  have apps: "applications empty_store = []" "applications store_closed_job = []"
    by (simp_all add: empty_store_def store_closed_job_def)
  have no: "\<not> list_ex (\<lambda>a. map_of a ''job_id'' = Some (PStr (ac_job_id sample_application))
                         \<and> map_of a ''applicant_id'' = Some (PStr ''u1''))
               (applications empty_store)"
    "\<not> list_ex (\<lambda>a. map_of a ''job_id'' = Some (PStr (ac_job_id sample_application))
                         \<and> map_of a ''applicant_id'' = Some (PStr ''u1''))
               (applications store_closed_job)"
    by (simp_all add: apps)
  have u: "find_first (users empty_store) ''id'' ''u1'' = None"
    "find_first (users store_closed_job) ''id'' ''u1'' = None"
    by (simp_all add: find_first_def empty_store_def store_closed_job_def)
  have j0: "find_first (jobs empty_store) ''id'' (ac_job_id sample_application) = None"
    by (simp add: find_first_def empty_store_def)
  have j1: "find_first (jobs store_closed_job) ''id'' (ac_job_id sample_application)
            = Some (AList.update ''status'' (PStr ''closed'') sample_job_doc)"
    by (simp add: store_closed_job_def find_first_single holds_str_def sample_job_doc_eq
        sample_application_def)
  have tc: "map_of (AList.update ''status'' (PStr ''closed'') sample_job_doc) ''title''
              = Some (PStr ''Software Engineer'')"
    "map_of (AList.update ''status'' (PStr ''closed'') sample_job_doc) ''company''
              = Some (PStr ''Acme'')"
    by (simp_all add: sample_job_doc_eq)
  have e: "enrichable (find_first (users empty_store) ''id'' ''u1'') ''name''"
    "enrichable (find_first (users store_closed_job) ''id'' ''u1'') ''name''"
    by (simp_all add: u enrichable_None)
  from apply_for_job_checks_no_job [OF keyed(1) no(1) e(1), of sample_libs "''a1''" sample_time] j0
  have first: "apply_for_job sample_libs empty_store sample_application ''u1'' ''a1'' sample_time =
     (Inr \<lparr>ar_id = ''a1'', ar_job_id = ''j1'', ar_applicant_id = ''u1'',
           ar_cover_letter = Some ''Hello'', ar_status = ''pending'',
           ar_applied_at = sample_time, ar_job_title = None, ar_company = None,
           ar_applicant_name = None\<rparr>,
      \<lparr>users = [], jobs = [], applications = [sample_application_doc]\<rparr>)"
    using u(1) apps(1)
    by (simp add: found_str_None sample_application_def sample_application_doc_def)
       (simp add: empty_store_def)
  from apply_for_job_checks_no_job [OF keyed(2) no(2) e(2), of sample_libs "''a1''" sample_time]
    j1 tc
  have second: "apply_for_job sample_libs store_closed_job sample_application ''u1'' ''a1'' sample_time =
     (Inr \<lparr>ar_id = ''a1'', ar_job_id = ''j1'', ar_applicant_id = ''u1'',
           ar_cover_letter = Some ''Hello'', ar_status = ''pending'',
           ar_applied_at = sample_time, ar_job_title = Some ''Software Engineer'',
           ar_company = Some ''Acme'', ar_applicant_name = None\<rparr>,
      store_closed_job\<lparr>applications := [sample_application_doc]\<rparr>)"
    by (simp add: u apps found_str_None sample_application_def sample_application_doc_def)
  from first second show ?thesis by simp
qed

text \<open>
  Claim C10 as stated fails in two ways. For a job that is not active the enrichment fields
  are present: a closed job (no operation of the surface stores one, the claim speaks of it)
  gives its title and company to the response. And an application for a job that is not
  stored does not always succeed: on the store that the surface produces with the profile
  update that stores a list as the name of the applicant, the first application for the
  unknown job \<^verbatim>\<open>j9\<close> ends with an exception (status 500).
\<close>

theorem apply_for_job_no_check_counterexample:
  "map_of (hd (jobs store_closed_job)) ''status'' = Some (PStr ''closed'')
   \<and> fst (apply_for_job sample_libs store_closed_job sample_application ''u1'' ''a1'' sample_time) =
       Inr \<lparr>ar_id = ''a1'', ar_job_id = ''j1'', ar_applicant_id = ''u1'',
            ar_cover_letter = Some ''Hello'', ar_status = ''pending'',
            ar_applied_at = sample_time, ar_job_title = Some ''Software Engineer'',
            ar_company = Some ''Acme'', ar_applicant_name = None\<rparr>
   \<and> reachable sample_libs store_list_name
   \<and> find_one sample_libs (jobs store_list_name) [Has ''id'' (Equals (PStr ''j9''))] = None
   \<and> applications store_list_name = []
   \<and> fst (apply_for_job sample_libs store_list_name unknown_job_application ''u1'' ''a1''
             sample_time) = Inl ValidationError
   \<and> status_code ValidationError = 500"
proof -
  have no: "\<not> already_applied store_closed_job (ac_job_id sample_application) ''u1''"
    by (simp add: already_applied_def store_closed_job_def)
  have u: "find_one sample_libs (users store_closed_job) [Has ''id'' (Equals (PStr ''u1''))] = None"
    by (simp add: find_one_def find_docs_def store_closed_job_def)
  have j1: "find_one sample_libs (jobs store_closed_job)
              [Has ''id'' (Equals (PStr (ac_job_id sample_application)))]
            = Some (AList.update ''status'' (PStr ''closed'') sample_job_doc)"
    by (simp add: store_closed_job_def find_one_single matches_def sample_job_doc_eq
        sample_application_def)
  have tc: "map_of (AList.update ''status'' (PStr ''closed'') sample_job_doc) ''title''
              = Some (PStr ''Software Engineer'')"
    "map_of (AList.update ''status'' (PStr ''closed'') sample_job_doc) ''company''
              = Some (PStr ''Acme'')"
    by (simp_all add: sample_job_doc_eq)
  from enriched_answer_ok [OF enrichable_str [OF tc(1)] enrichable_str [OF tc(2)]
      enrichable_None [of "''name''"], of sample_libs sample_application "''u1''" "''a1''" sample_time]
  have "enriched_answer sample_libs
          (Some (AList.update ''status'' (PStr ''closed'') sample_job_doc)) None
          (Application_dict sample_application ''u1'' ''a1'' sample_time) =
       Inr \<lparr>ar_id = ''a1'', ar_job_id = ''j1'', ar_applicant_id = ''u1'',
            ar_cover_letter = Some ''Hello'', ar_status = ''pending'',
            ar_applied_at = sample_time, ar_job_title = Some ''Software Engineer'',
            ar_company = Some ''Acme'', ar_applicant_name = None\<rparr>"
    by (simp add: found_str_None found_str_str [OF tc(1)] found_str_str [OF tc(2)]
        sample_application_def)
  then have closed: "fst (apply_for_job sample_libs store_closed_job sample_application ''u1'' ''a1''
                       sample_time) =
       Inr \<lparr>ar_id = ''a1'', ar_job_id = ''j1'', ar_applicant_id = ''u1'',
            ar_cover_letter = Some ''Hello'', ar_status = ''pending'',
            ar_applied_at = sample_time, ar_job_title = Some ''Software Engineer'',
            ar_company = Some ''Acme'', ar_applicant_name = None\<rparr>"
    using no u j1 by (simp add: apply_for_job_unfold)
  have st: "map_of (hd (jobs store_closed_job)) ''status'' = Some (PStr ''closed'')"
    by (simp add: store_closed_job_def sample_job_doc_eq)
  have nojob: "find_one sample_libs (jobs store_list_name) [Has ''id'' (Equals (PStr ''j9''))] = None"
    by (simp add: store_list_name_eq find_one_single matches_def sample_job_doc_eq)
  have keyed: "applications_keyed store_list_name"
    by (simp add: applications_keyed_def store_list_name_eq)
  have no: "\<not> list_ex (\<lambda>a. map_of a ''job_id'' = Some (PStr (ac_job_id unknown_job_application))
                         \<and> map_of a ''applicant_id'' = Some (PStr ''u1''))
               (applications store_list_name)"
    by (simp add: store_list_name_eq)
  have j: "find_first (jobs store_list_name) ''id'' (ac_job_id unknown_job_application) = None"
    by (simp add: store_list_name_eq find_first_single holds_str_def sample_job_doc_eq
        unknown_job_application_def)
  have a: "find_first (users store_list_name) ''id'' ''u1''
       = Some (AList.update ''name'' (PList [''A'']) sample_user_doc)"
    by (simp add: store_list_name_eq find_first_single holds_str_def sample_user_doc_eq)
  have err: "enriched_answer sample_libs None
               (Some (AList.update ''name'' (PList [''A'']) sample_user_doc))
               (Application_dict unknown_job_application ''u1'' ''a1'' sample_time)
             = Inl ValidationError"
    by (simp add: enriched_answer_def enrich_job_def enrich_applicant_def subscript_def
        sample_user_doc_eq Application_dict_def
        ApplicationResponse_validate_def str_field_def opt_str_field_def datetime_field_def
        validated_def unknown_job_application_def)
  have "fst (apply_for_job sample_libs store_list_name unknown_job_application ''u1'' ''a1''
             sample_time) = Inl ValidationError"
    using err j a by (simp add: apply_for_job_first [OF keyed no])
  with closed st nojob reachable_samples(2) show ?thesis
    by (simp add: store_list_name_eq)
qed

end
